theory Spec2Isabelle
  imports Main "HOL-Library.Word" "HOL-Library.Multiset"
begin

section \<open>JavaScript strings and numbers\<close>

text \<open>
  A JavaScript string is a sequence of 16-bit code units. All literals of the program lie
  in Latin-1, where a code unit is the code point, so a literal is written as an Isabelle
  string and widened by \<open>str\<close>; the accented letters of the status names are
  \<open>CHR 0xE0\<close> (a grave) and \<open>CHR 0xE9\<close> (e acute).
\<close>

type_synonym js_string = "16 word list"

definition str :: "string \<Rightarrow> js_string" where
  "str s = map of_char s"

text \<open>
  \<open>String.prototype.trim\<close> removes the code units of WhiteSpace and LineTerminator
  from both ends. All of them are in the basic plane, so the test is per code unit.
\<close>

definition isWhiteSpace :: "16 word \<Rightarrow> bool" where
  "isWhiteSpace c \<longleftrightarrow>
     c \<in> set [0x0009, 0x000A, 0x000B, 0x000C, 0x000D, 0x0020, 0x00A0, 0x1680,
               0x2000, 0x2001, 0x2002, 0x2003, 0x2004, 0x2005, 0x2006, 0x2007,
               0x2008, 0x2009, 0x200A, 0x2028, 0x2029, 0x202F, 0x205F, 0x3000, 0xFEFF]"

definition trim :: "js_string \<Rightarrow> js_string" where
  "trim s = rev (dropWhile isWhiteSpace (rev (dropWhile isWhiteSpace s)))"

text \<open>\<open>s.substr(start, len)\<close> for non-negative arguments.\<close>

definition substr :: "js_string \<Rightarrow> nat \<Rightarrow> nat \<Rightarrow> js_string" where
  "substr s start len = take len (drop start s)"

text \<open>
  The decimal rendering of an integral number in a template literal. It is the rendering
  JavaScript uses below \<open>10^21\<close>; clock readings are far below that.
\<close>

fun digits :: "nat \<Rightarrow> js_string" where
  "digits n = (if n < 10 then [of_nat (48 + n)] else digits (n div 10) @ [of_nat (48 + n mod 10)])"

declare digits.simps [simp del]

definition numberToString :: "int \<Rightarrow> js_string" where
  "numberToString n = (if n < 0 then 0x2D # digits (nat (- n)) else digits (nat n))"

section \<open>JavaScript values\<close>

text \<open>
  The static types of the program are erased at run time, and \<open>TaskManager.load\<close> hands
  \<open>Task.fromJSON\<close> whatever \<open>JSON.parse\<close> returned. A value is therefore one of the values
  \<open>JSON.parse\<close> can build, or \<open>undefined\<close>. A number is its IEEE 754 bit pattern; an object
  is the list of its own properties, each key once.
\<close>

datatype js_value =
    Undefined
  | Null
  | Boolean bool
  | Number "64 word"
  | String js_string
  | Array "js_value list"
  | Object "(js_string \<times> js_value) list"

text \<open>
  \<open>!v\<close> is \<open>\<not> truthy v\<close>: the falsy values are \<open>undefined\<close>, \<open>null\<close>, \<open>false\<close>, the two
  zeros, NaN and the empty string.
\<close>

definition truthy :: "js_value \<Rightarrow> bool" where
  "truthy v =
     (case v of
        Undefined \<Rightarrow> False
      | Null \<Rightarrow> False
      | Boolean b \<Rightarrow> b
      | Number n \<Rightarrow>
          \<not> (n = 0 \<or> n = 0x8000000000000000 \<or>
             (0x7FF0000000000000 < n \<and> n \<le> 0x7FFFFFFFFFFFFFFF) \<or> 0xFFF0000000000000 < n)
      | String s \<Rightarrow> s \<noteq> []
      | Array xs \<Rightarrow> True
      | Object kvs \<Rightarrow> True)"

text \<open>
  \<open>v.k\<close> for a value \<open>v\<close> that is neither \<open>null\<close> nor \<open>undefined\<close> (for those the read
  throws), and for the keys the program reads from a stored record: \<open>id\<close>, \<open>title\<close>,
  \<open>description\<close>, \<open>status\<close>, \<open>priority\<close>, \<open>createdAt\<close>, \<open>color\<close>. None of them is a member
  of the prototypes of objects, arrays, strings, numbers or booleans, so only an own
  property of an object gives something else than \<open>undefined\<close>.
\<close>

definition property :: "js_value \<Rightarrow> js_string \<Rightarrow> js_value" where
  "property v k =
     (case v of
        Object kvs \<Rightarrow> (case map_of kvs k of None \<Rightarrow> Undefined | Some x \<Rightarrow> x)
      | _ \<Rightarrow> Undefined)"

text \<open>An argument of a typed caller: a string, or left out.\<close>

definition optional :: "js_string option \<Rightarrow> js_value" where
  "optional x = (case x of None \<Rightarrow> Undefined | Some s \<Rightarrow> String s)"

section \<open>The Task entity\<close>

definition a_faire :: js_string where
  "a_faire = str (CHR 0xE0 # '' faire'')"

definition en_cours :: js_string where
  "en_cours = str ''en cours''"

definition terminee :: js_string where
  "terminee = str (''termin'' @ [CHR 0xE9] @ ''e'')"

definition bloquee :: js_string where
  "bloquee = str (''bloqu'' @ [CHR 0xE9] @ ''e'')"

definition basse :: js_string where
  "basse = str ''basse''"

definition moyenne :: js_string where
  "moyenne = str ''moyenne''"

definition haute :: js_string where
  "haute = str ''haute''"

datatype error =
    EmptyTitle      \<comment> \<open>Error('Le titre de la tache ne peut pas etre vide')\<close>
  | InvalidStatus   \<comment> \<open>Error('Statut invalide. ...')\<close>
  | TypeError       \<comment> \<open>a property read of null, or a call of what is not a function\<close>
  | RangeError      \<comment> \<open>toISOString of an Invalid Date\<close>
  | SyntaxError     \<comment> \<open>JSON.parse of a text that is not JSON\<close>
  | StorageError    \<comment> \<open>localStorage refusing an access\<close>

text \<open>
  The fields of a task, as they are at run time. Title, description and status are
  strings: the first two are results of \<open>trim()\<close>, the third has passed the test against the
  closed set. Id, priority and colour hold what was assigned, which \<open>fromJSON\<close> takes from
  the stored record as it is. A \<open>Date\<close> is its time value in milliseconds, or Invalid Date
  (\<open>None\<close>), whose \<open>getTime()\<close> is NaN.
\<close>

record Task =
  id_T :: js_value
  title :: js_string
  description :: js_string
  status :: js_string
  priority :: js_value
  createdAt :: "int option"
  color :: js_value

text \<open>The argument of \<open>Task.update\<close>, as its typed callers build it from the form.\<close>

record PartialTaskData =
  title_P :: "js_string option"
  description_P :: "js_string option"
  status_P :: "js_string option"
  priority_P :: "js_string option"

text \<open>
  What a construction reads from its environment: \<open>Date.now()\<close> and
  \<open>Math.random().toString(36)\<close> in \<open>generateId\<close>, and the clock again in
  \<open>new Date()\<close>.
\<close>

record entropy =
  Date_now :: int
  Math_random36 :: js_string
  new_Date :: int

text \<open>
  The built-ins of the platform that the program calls and whose code is not part of the
  repository. \<open>Date_parse\<close> is the time value of \<open>new Date(s)\<close> for a string and
  \<open>Date_of_value\<close> that of \<open>new Date(v)\<close> for a number, an array or an object;
  \<open>ToString\<close> is the conversion of a value that is not a string to a property key;
  \<open>JSON_parse\<close> is \<open>None\<close> where \<open>JSON.parse\<close> throws.
\<close>

record platform =
  toISOString :: "int \<Rightarrow> js_string"
  Date_parse :: "js_string \<Rightarrow> int option"
  Date_of_value :: "js_value \<Rightarrow> int option"
  ToString :: "js_value \<Rightarrow> js_string"
  toLowerCase :: "js_string \<Rightarrow> js_string"
  localeCompare :: "js_string \<Rightarrow> js_string \<Rightarrow> int"
  JSON_stringify :: "js_value list \<Rightarrow> js_string"
  JSON_parse :: "js_string \<Rightarrow> js_value option"
  getItem_throws :: bool
  setItem_throws :: "js_string \<Rightarrow> bool"

definition validStatuses :: "js_string list" where
  "validStatuses = [a_faire, en_cours, terminee, bloquee]"

text \<open>
  \<open>validateInputs\<close>. A title that is truthy and not a string has no \<open>trim\<close> method, and the
  call throws a TypeError before the status is looked at.
\<close>

definition validateInputs :: "js_value \<Rightarrow> js_value \<Rightarrow> error + unit" where
  "validateInputs title' status' =
     (if \<not> truthy title' then Inl EmptyTitle
      else case title' of
             String s \<Rightarrow>
               if length (trim s) = 0 then Inl EmptyTitle
               else if status' \<notin> set (map String validStatuses) then Inl InvalidStatus
               else Inr ()
           | _ \<Rightarrow> Inl TypeError)"

definition generateId :: "entropy \<Rightarrow> js_string" where
  "generateId e =
     str ''task_'' @ numberToString (Date_now e) @ str ''_'' @ substr (Math_random36 e) 2 9"

definition colorMap :: "(js_string \<times> js_string) list" where
  "colorMap =
     [(a_faire, str ''#3498db''), (en_cours, str ''#f39c12''),
      (terminee, str ''#27ae60''), (bloquee, str ''#e74c3c'')]"

text \<open>\<open>colorMap[status]\<close>, which is \<open>undefined\<close> for a key the map does not have.\<close>

definition getColorByStatus :: "js_string \<Rightarrow> js_value" where
  "getColorByStatus status' =
     (case map_of colorMap status' of None \<Rightarrow> Undefined | Some c \<Rightarrow> String c)"

text \<open>
  The constructor. An argument that is \<open>undefined\<close> takes its default: \<open>description = ''\<close>,
  \<open>status = 'a faire'\<close>, \<open>priority = 'moyenne'\<close>. After \<open>validateInputs\<close> the title is a
  string and the status a string of the closed set; a description that is not a string
  makes \<open>description.trim()\<close> throw. The priority is stored as it is.
\<close>

definition new_Task ::
  "entropy \<Rightarrow> js_value \<Rightarrow> js_value \<Rightarrow> js_value \<Rightarrow> js_value \<Rightarrow> error + Task" where
  "new_Task e title' description' status' priority' =
     (let d = (if description' = Undefined then String [] else description');
          s = (if status' = Undefined then String a_faire else status');
          p = (if priority' = Undefined then String moyenne else priority')
      in case validateInputs title' s of
           Inl err \<Rightarrow> Inl err
         | Inr _ \<Rightarrow>
             (case title' of
                String ti \<Rightarrow>
                  (case d of
                     String de \<Rightarrow>
                       (case s of
                          String st \<Rightarrow>
                            Inr \<lparr>id_T = String (generateId e), title = trim ti,
                                 description = trim de, status = st, priority = p,
                                 createdAt = Some (new_Date e),
                                 color = getColorByStatus st\<rparr>
                        | _ \<Rightarrow> Inl TypeError)
                   | _ \<Rightarrow> Inl TypeError)
              | _ \<Rightarrow> Inl TypeError))"

text \<open>
  \<open>Task.update\<close> mutates the task in place, one block per field, and a block that throws
  leaves what the earlier blocks wrote. Each block is a function of the task as it stands
  when the block is entered; \<open>update\<close> returns the task as the call leaves it, and the
  error thrown, if any.
\<close>

definition apply_title :: "PartialTaskData \<Rightarrow> Task \<Rightarrow> error + Task" where
  "apply_title p t =
     (case title_P p of
        None \<Rightarrow> Inr t
      | Some x \<Rightarrow>
          if x = [] \<or> length (trim x) = 0 then Inl EmptyTitle
          else Inr (t\<lparr>title := trim x\<rparr>))"

definition apply_description :: "PartialTaskData \<Rightarrow> Task \<Rightarrow> Task" where
  "apply_description p t =
     (case description_P p of None \<Rightarrow> t | Some x \<Rightarrow> t\<lparr>description := trim x\<rparr>)"

definition apply_status :: "PartialTaskData \<Rightarrow> Task \<Rightarrow> error + Task" where
  "apply_status p t =
     (case status_P p of
        None \<Rightarrow> Inr t
      | Some x \<Rightarrow>
          if x \<notin> set validStatuses then Inl InvalidStatus
          else Inr (t\<lparr>status := x, color := getColorByStatus x\<rparr>))"

definition apply_priority :: "PartialTaskData \<Rightarrow> Task \<Rightarrow> Task" where
  "apply_priority p t =
     (case priority_P p of None \<Rightarrow> t | Some x \<Rightarrow> t\<lparr>priority := String x\<rparr>)"

definition update :: "Task \<Rightarrow> PartialTaskData \<Rightarrow> Task \<times> error option" where
  "update t p =
     (case apply_title p t of
        Inl err \<Rightarrow> (t, Some err)
      | Inr t1 \<Rightarrow>
          (let t2 = apply_description p t1
           in case apply_status p t2 of
                Inl err \<Rightarrow> (t2, Some err)
              | Inr t3 \<Rightarrow> (apply_priority p t3, None)))"

text \<open>\<open>toJSON\<close> returns an object literal of seven properties.\<close>

definition toJSON :: "platform \<Rightarrow> Task \<Rightarrow> error + js_value" where
  "toJSON P t =
     (case createdAt t of
        None \<Rightarrow> Inl RangeError
      | Some ms \<Rightarrow>
          Inr (Object
                [(str ''id'', id_T t), (str ''title'', String (title t)),
                 (str ''description'', String (description t)),
                 (str ''status'', String (status t)), (str ''priority'', priority t),
                 (str ''createdAt'', String (toISOString P ms)), (str ''color'', color t)]))"

text \<open>
  \<open>new Date(v)\<close>: \<open>undefined\<close> is NaN as a number, hence Invalid Date; \<open>null\<close> and the
  booleans are the numbers 0 and 1; the rest is the platform's.
\<close>

definition new_Date_of :: "platform \<Rightarrow> js_value \<Rightarrow> int option" where
  "new_Date_of P v =
     (case v of
        Undefined \<Rightarrow> None
      | Null \<Rightarrow> Some 0
      | Boolean b \<Rightarrow> Some (if b then 1 else 0)
      | String s \<Rightarrow> Date_parse P s
      | _ \<Rightarrow> Date_of_value P v)"

text \<open>
  \<open>Task.fromJSON\<close>. Reading \<open>data.title\<close> throws when \<open>data\<close> is \<open>null\<close> or \<open>undefined\<close>;
  a property the record does not have reads as \<open>undefined\<close>, for which the constructor
  takes its default. Id, date and colour are then overwritten with what the record holds.
\<close>

definition fromJSON :: "platform \<Rightarrow> entropy \<Rightarrow> js_value \<Rightarrow> error + Task" where
  "fromJSON P e d =
     (if d = Null \<or> d = Undefined then Inl TypeError
      else case new_Task e (property d (str ''title'')) (property d (str ''description''))
                  (property d (str ''status'')) (property d (str ''priority'')) of
             Inl err \<Rightarrow> Inl err
           | Inr task \<Rightarrow>
               Inr (task\<lparr>id_T := property d (str ''id''),
                         createdAt := new_Date_of P (property d (str ''createdAt'')),
                         color := property d (str ''color'')\<rparr>))"

text \<open>
  What the constructor establishes and no method of the class gives up: the title is
  trimmed and not empty, the description is trimmed, the status is of the closed set, and
  the priority is not \<open>undefined\<close>.
\<close>

definition Task_inv :: "Task \<Rightarrow> bool" where
  "Task_inv t \<longleftrightarrow>
     trim (title t) = title t \<and> title t \<noteq> [] \<and> trim (description t) = description t \<and>
     status t \<in> set validStatuses \<and> priority t \<noteq> Undefined"

section \<open>The task manager\<close>

text \<open>
  Arrays are objects: \<open>sort\<close> and an indexed assignment write into the array they are
  given, while the spread \<open>[...xs]\<close> and \<open>filter\<close> build a new one. The state therefore
  holds every Task array ever built (\<open>arrays\<close>, a reference being an index into it), the
  manager's fields, \<open>tasks\<close> being a reference, and the item \<open>'tasks'\<close> of the browser's
  local storage (\<open>None\<close> when the key is absent).
\<close>

record TaskManager =
  arrays :: "Task list list"
  tasks :: nat
  currentFilter :: js_string
  currentSearch :: js_string
  currentSort :: js_string
  localStorage :: "js_string option"

definition new_array :: "Task list \<Rightarrow> TaskManager \<Rightarrow> nat \<times> TaskManager" where
  "new_array xs m = (length (arrays m), m\<lparr>arrays := arrays m @ [xs]\<rparr>)"

definition array_at :: "TaskManager \<Rightarrow> nat \<Rightarrow> Task list" where
  "array_at m r = arrays m ! r"

definition array_set :: "nat \<Rightarrow> Task list \<Rightarrow> TaskManager \<Rightarrow> TaskManager" where
  "array_set r xs m = m\<lparr>arrays := (arrays m)[r := xs]\<rparr>"


text \<open>\<open>s.includes(sub)\<close>: \<open>sub\<close> occurs in \<open>s\<close> as a contiguous run.\<close>

fun includes_str :: "js_string \<Rightarrow> js_string \<Rightarrow> bool" where
  "includes_str [] sub = (sub = [])"
| "includes_str (c # cs) sub = (take (length sub) (c # cs) = sub \<or> includes_str cs sub)"

text \<open>
  The comparator of \<open>getFilteredTasks\<close>. A number is an integer or NaN (\<open>None\<close>): the
  difference of two \<open>getTime()\<close> is NaN when a date is invalid, and so is the difference
  of two \<open>priorityOrder\<close> entries when a priority, as a property key, is not one of the
  three keys of the table (what the table inherits is not a number). Only the sign of the
  result is read by \<open>sort\<close>, and the sign of a difference of time values is exact in
  floating point.
\<close>

definition priorityOrder :: "platform \<Rightarrow> js_value \<Rightarrow> int option" where
  "priorityOrder P p =
     map_of [(haute, 3), (moyenne, 2), (basse, 1)] (case p of String s \<Rightarrow> s | _ \<Rightarrow> ToString P p)"

definition minus_number :: "int option \<Rightarrow> int option \<Rightarrow> int option" where
  "minus_number a b =
     (case a of None \<Rightarrow> None | Some x \<Rightarrow> (case b of None \<Rightarrow> None | Some y \<Rightarrow> Some (x - y)))"

definition compareFn :: "platform \<Rightarrow> js_string \<Rightarrow> Task \<Rightarrow> Task \<Rightarrow> int option" where
  "compareFn P key a b =
     (if key = str ''date-asc'' then minus_number (createdAt a) (createdAt b)
      else if key = str ''date-desc'' then minus_number (createdAt b) (createdAt a)
      else if key = str ''title-asc'' then Some (localeCompare P (title a) (title b))
      else if key = str ''title-desc'' then Some (localeCompare P (title b) (title a))
      else if key = str ''priority-desc''
        then minus_number (priorityOrder P (priority b)) (priorityOrder P (priority a))
      else if key = str ''priority-asc''
        then minus_number (priorityOrder P (priority a)) (priorityOrder P (priority b))
      else Some 0)"

text \<open>
  \<open>Array.prototype.sort\<close> reads a NaN from the comparator as \<open>+0\<close> and is stable. For a
  consistent comparator the result is thereby determined, and it is what this stable
  insertion sort computes; for an inconsistent one the order is left to the engine.
\<close>

definition sortCompare :: "('a \<Rightarrow> 'a \<Rightarrow> int option) \<Rightarrow> 'a \<Rightarrow> 'a \<Rightarrow> int" where
  "sortCompare f a b = (case f a b of None \<Rightarrow> 0 | Some v \<Rightarrow> v)"

fun insert_sorted :: "('a \<Rightarrow> 'a \<Rightarrow> int) \<Rightarrow> 'a \<Rightarrow> 'a list \<Rightarrow> 'a list" where
  "insert_sorted c x [] = [x]"
| "insert_sorted c x (y # ys) = (if c x y \<le> 0 then x # y # ys else y # insert_sorted c x ys)"

definition array_sort :: "('a \<Rightarrow> 'a \<Rightarrow> int) \<Rightarrow> 'a list \<Rightarrow> 'a list" where
  "array_sort c xs = foldr (insert_sorted c) xs []"

definition getFilteredTasks :: "platform \<Rightarrow> TaskManager \<Rightarrow> nat \<times> TaskManager" where
  "getFilteredTasks P m =
     (let (r0, m0) = new_array (array_at m (tasks m)) m;
          (r1, m1) =
            (if currentFilter m0 \<noteq> str ''all''
             then new_array (filter (\<lambda>t. status t = currentFilter m0) (array_at m0 r0)) m0
             else (r0, m0));
          (r2, m2) =
            (if currentSearch m1 \<noteq> []
             then new_array
                    (filter (\<lambda>t. includes_str (toLowerCase P (title t)) (currentSearch m1) \<or>
                                 includes_str (toLowerCase P (description t)) (currentSearch m1))
                       (array_at m1 r1)) m1
             else (r1, m1));
          m3 =
            (if currentSort m2 \<noteq> str ''manual''
             then array_set r2
                    (array_sort (sortCompare (compareFn P (currentSort m2))) (array_at m2 r2)) m2
             else m2)
      in (r2, m3))"

text \<open>
  \<open>updateUI\<close> writes the statistics and the cards into the page. The page is not part of
  the state; what is left of \<open>renderTasks\<close> is its call of \<open>getFilteredTasks\<close>.
\<close>

definition updateUI :: "platform \<Rightarrow> TaskManager \<Rightarrow> TaskManager" where
  "updateUI P m = snd (getFilteredTasks P m)"

definition filterByStatus :: "platform \<Rightarrow> js_string \<Rightarrow> TaskManager \<Rightarrow> nat \<times> TaskManager" where
  "filterByStatus P status' m = getFilteredTasks P (updateUI P (m\<lparr>currentFilter := status'\<rparr>))"

definition search :: "platform \<Rightarrow> js_string \<Rightarrow> TaskManager \<Rightarrow> nat \<times> TaskManager" where
  "search P text' m = getFilteredTasks P (updateUI P (m\<lparr>currentSearch := toLowerCase P text'\<rparr>))"

text \<open>\<open>xs.map(f)\<close> for a callback that may throw: the first throw ends the loop.\<close>

fun map_result :: "('a \<Rightarrow> error + 'b) \<Rightarrow> 'a list \<Rightarrow> error + 'b list" where
  "map_result f [] = Inr []"
| "map_result f (x # xs) =
     (case f x of
        Inl err \<Rightarrow> Inl err
      | Inr y \<Rightarrow> (case map_result f xs of Inl err \<Rightarrow> Inl err | Inr ys \<Rightarrow> Inr (y # ys)))"

definition save :: "platform \<Rightarrow> TaskManager \<Rightarrow> TaskManager" where
  "save P m =
     (case map_result (toJSON P) (array_at m (tasks m)) of
        Inl _ \<Rightarrow> m
      | Inr tasksData \<Rightarrow>
          if setItem_throws P (JSON_stringify P tasksData) then m
          else m\<lparr>localStorage := Some (JSON_stringify P tasksData)\<rparr>)"

text \<open>
  \<open>load\<close>: the body of its \<open>try\<close> first, then the whole method with its \<open>catch\<close>. A
  parsed value that is not an array has no \<open>map\<close> method, and the call throws a TypeError.
  Every \<open>Task.fromJSON\<close> of the loop reads the clock and the random source, and overwrites
  what it took from them; one reading \<open>e\<close> stands for all of them.
\<close>

definition assign_tasks :: "Task list \<Rightarrow> TaskManager \<Rightarrow> TaskManager" where
  "assign_tasks xs m = (let (r, m') = new_array xs m in m'\<lparr>tasks := r\<rparr>)"

definition load_try :: "platform \<Rightarrow> entropy \<Rightarrow> TaskManager \<Rightarrow> error + TaskManager" where
  "load_try P e m =
     (if getItem_throws P then Inl StorageError
      else case localStorage m of
             None \<Rightarrow> Inr m
           | Some savedTasks \<Rightarrow>
               if savedTasks = [] then Inr m
               else (case JSON_parse P savedTasks of
                       None \<Rightarrow> Inl SyntaxError
                     | Some (Array tasksData) \<Rightarrow>
                         (case map_result (fromJSON P e) tasksData of
                            Inl err \<Rightarrow> Inl err
                          | Inr ts \<Rightarrow> Inr (assign_tasks ts m))
                     | Some _ \<Rightarrow> Inl TypeError))"

definition load :: "platform \<Rightarrow> entropy \<Rightarrow> TaskManager \<Rightarrow> error + TaskManager" where
  "load P e m =
     (case load_try P e m of
        Inr m' \<Rightarrow> Inr m'
      | Inl _ \<Rightarrow> Inr (assign_tasks [] m))"

text \<open>\<open>xs.findIndex(p)\<close>: the first index whose element satisfies \<open>p\<close>, or \<open>-1\<close>.\<close>

fun findIndex :: "('a \<Rightarrow> bool) \<Rightarrow> 'a list \<Rightarrow> int" where
  "findIndex p [] = - 1"
| "findIndex p (x # xs) =
     (if p x then 0 else (let i = findIndex p xs in if i = - 1 then - 1 else i + 1))"

definition reorderTasks :: "platform \<Rightarrow> js_string \<Rightarrow> js_string \<Rightarrow> TaskManager \<Rightarrow> TaskManager" where
  "reorderTasks P draggedId targetId m =
     (let draggedIndex = findIndex (\<lambda>t. id_T t = String draggedId) (array_at m (tasks m));
          targetIndex = findIndex (\<lambda>t. id_T t = String targetId) (array_at m (tasks m))
      in if draggedIndex = - 1 \<or> targetIndex = - 1 then m
         else (let draggedTask = array_at m (tasks m) ! nat draggedIndex;
                   targetTask = array_at m (tasks m) ! nat targetIndex;
                   m1 = array_set (tasks m) ((array_at m (tasks m))[nat draggedIndex := targetTask]) m;
                   m2 = array_set (tasks m1) ((array_at m1 (tasks m1))[nat targetIndex := draggedTask]) m1;
                   m3 = m2\<lparr>currentSort := str ''manual''\<rparr>
               in updateUI P (save P m3)))"


text \<open>
  What the array returned by \<open>getFilteredTasks\<close> holds, as a function of the stored
  sequence: the three steps without the arrays they go through.
\<close>

definition filtered_view :: "platform \<Rightarrow> TaskManager \<Rightarrow> Task list \<Rightarrow> Task list" where
  "filtered_view P m xs =
     (let a = (if currentFilter m \<noteq> str ''all'' then filter (\<lambda>t. status t = currentFilter m) xs else xs);
          b = (if currentSearch m \<noteq> []
               then filter (\<lambda>t. includes_str (toLowerCase P (title t)) (currentSearch m) \<or>
                              includes_str (toLowerCase P (description t)) (currentSearch m)) a
               else a)
      in if currentSort m \<noteq> str ''manual''
         then array_sort (sortCompare (compareFn P (currentSort m))) b else b)"

text \<open>
  \<open>untouched m m'\<close>: every array that exists in \<open>m\<close> exists in \<open>m'\<close> with the content it
  had (\<open>m'\<close> may hold new ones), the manager refers to the same array, and the stored item
  is the same.
\<close>

definition untouched :: "TaskManager \<Rightarrow> TaskManager \<Rightarrow> bool" where
  "untouched m m' \<longleftrightarrow>
     take (length (arrays m)) (arrays m') = arrays m \<and> tasks m' = tasks m \<and>
     localStorage m' = localStorage m"

section \<open>Sample values\<close>

text \<open>
  Concrete inputs on which the theorems below are instantiated. \<open>demo_platform\<close> is a small
  stand-in for the built-ins: two timestamps with their ISO-8601 renderings, lower-casing
  of the ASCII letters, comparison by code units, and a few storage blobs, written short.
\<close>

fun compare_units :: "js_string \<Rightarrow> js_string \<Rightarrow> int" where
  "compare_units [] [] = 0"
| "compare_units [] (y # ys) = - 1"
| "compare_units (x # xs) [] = 1"
| "compare_units (x # xs) (y # ys) =
     (if x < y then - 1 else if y < x then 1 else compare_units xs ys)"

definition demo_task :: Task where
  "demo_task =
     \<lparr>id_T = String (str ''task_1000_k3j9x2m1q''), title = str ''Rapport'',
      description = str ''Mensuel'', status = en_cours, priority = String haute,
      createdAt = Some 1000, color = String (str ''#f39c12'')\<rparr>"

definition demo_done :: Task where
  "demo_done =
     \<lparr>id_T = String (str ''task_0_a1''), title = str ''Livraison'', description = [],
      status = terminee, priority = String basse, createdAt = Some 0,
      color = String (str ''#27ae60'')\<rparr>"

definition demo_done_late :: Task where
  "demo_done_late =
     \<lparr>id_T = String (str ''task_1000_b2''), title = str ''Recette'', description = [],
      status = terminee, priority = String moyenne, createdAt = Some 1000,
      color = String (str ''#27ae60'')\<rparr>"

text \<open>A done task without a date, and a task that carries the id of \<open>demo_done\<close>.\<close>

definition demo_undated :: Task where
  "demo_undated =
     \<lparr>id_T = String (str ''task_7_c3''), title = str ''Archive'', description = [],
      status = terminee, priority = String moyenne, createdAt = None,
      color = String (str ''#27ae60'')\<rparr>"

definition demo_twin :: Task where
  "demo_twin =
     \<lparr>id_T = String (str ''task_0_a1''), title = str ''Copie'', description = [],
      status = a_faire, priority = String moyenne, createdAt = Some 0,
      color = String (str ''#3498db'')\<rparr>"

text \<open>
  Stored records: the one \<open>toJSON\<close> writes for \<open>demo_done\<close>, the same with the colour of
  another status, the same with a blank title, and a record that has a title and nothing
  else, with the task \<open>fromJSON\<close> makes of it.
\<close>

definition demo_data :: js_value where
  "demo_data =
     Object
       [(str ''id'', String (str ''task_0_a1'')), (str ''title'', String (str ''Livraison'')),
        (str ''description'', String []), (str ''status'', String terminee),
        (str ''priority'', String basse),
        (str ''createdAt'', String (str ''1970-01-01T00:00:00.000Z'')),
        (str ''color'', String (str ''#27ae60''))]"

definition demo_data_blue :: js_value where
  "demo_data_blue =
     Object
       [(str ''id'', String (str ''task_0_a1'')), (str ''title'', String (str ''Livraison'')),
        (str ''description'', String []), (str ''status'', String terminee),
        (str ''priority'', String basse),
        (str ''createdAt'', String (str ''1970-01-01T00:00:00.000Z'')),
        (str ''color'', String (str ''#3498db''))]"

definition demo_data_blank :: js_value where
  "demo_data_blank =
     Object [(str ''id'', String (str ''task_0_a1'')), (str ''title'', String (str ''  ''))]"

definition demo_data_bare :: js_value where
  "demo_data_bare = Object [(str ''title'', String (str ''x''))]"

definition demo_bare :: Task where
  "demo_bare =
     \<lparr>id_T = Undefined, title = str ''x'', description = [], status = a_faire,
      priority = String moyenne, createdAt = None, color = Undefined\<rparr>"

text \<open>
  Two more stored records: one whose \<open>createdAt\<close> is no timestamp, one that repeats the id
  of \<open>demo_done\<close>. \<open>fromJSON\<close> makes \<open>demo_undated\<close> and \<open>demo_twin\<close> of them.
\<close>

definition demo_data_undated :: js_value where
  "demo_data_undated =
     Object
       [(str ''id'', String (str ''task_7_c3'')), (str ''title'', String (str ''Archive'')),
        (str ''status'', String terminee), (str ''createdAt'', String (str ''hier'')),
        (str ''color'', String (str ''#27ae60''))]"

definition demo_data_twin :: js_value where
  "demo_data_twin =
     Object
       [(str ''id'', String (str ''task_0_a1'')), (str ''title'', String (str ''Copie'')),
        (str ''createdAt'', String (str ''1970-01-01T00:00:00.000Z'')),
        (str ''color'', String (str ''#3498db''))]"

definition demo_partial :: PartialTaskData where
  "demo_partial =
     \<lparr>title_P = Some (str '' Bilan ''), description_P = None,
      status_P = Some (str ''archivee''), priority_P = Some basse\<rparr>"

definition demo_entropy :: entropy where
  "demo_entropy = \<lparr>Date_now = 1000, Math_random36 = str ''0.k3j9x2m1qzz'', new_Date = 1000\<rparr>"

definition demo_platform :: platform where
  "demo_platform =
     \<lparr>toISOString =
        (\<lambda>ms. if ms = 0 then str ''1970-01-01T00:00:00.000Z''
              else str ''1970-01-01T00:00:01.000Z''),
      Date_parse =
        (\<lambda>s. if s = str ''1970-01-01T00:00:00.000Z'' then Some 0
             else if s = str ''1970-01-01T00:00:01.000Z'' then Some 1000 else None),
      Date_of_value = (\<lambda>v. None),
      ToString = (\<lambda>v. str ''[object Object]''),
      toLowerCase = map (\<lambda>c. if 0x41 \<le> c \<and> c \<le> 0x5A then c + 0x20 else c),
      localeCompare = compare_units,
      JSON_stringify = (\<lambda>ds. if ds = [] then str ''[]'' else str ''[{}]''),
      JSON_parse =
        (\<lambda>s. if s = str ''[]'' then Some (Array [])
             else if s = str ''[{}]'' then Some (Array [demo_data])
             else if s = str ''[{blue}]'' then Some (Array [demo_data_blue])
             else if s = str ''[{blank}]'' then Some (Array [demo_data_blank])
             else if s = str ''[{title:x}]'' then Some (Array [demo_data_bare])
             else if s = str ''{}'' then Some (Object [])
             else None),
      getItem_throws = False,
      setItem_throws = (\<lambda>s. False)\<rparr>"

definition demo_new :: Task where
  "demo_new =
     \<lparr>id_T = String (str ''task_1000_k3j9x2m1q''), title = str ''Tests'', description = [],
      status = a_faire, priority = String moyenne, createdAt = Some 1000,
      color = String (str ''#3498db'')\<rparr>"

definition demo_blocked :: PartialTaskData where
  "demo_blocked =
     \<lparr>title_P = None, description_P = None, status_P = Some bloquee, priority_P = None\<rparr>"

definition demo_manager :: TaskManager where
  "demo_manager =
     \<lparr>arrays = [[demo_done, demo_task, demo_done_late]], tasks = 0,
      currentFilter = terminee, currentSearch = [], currentSort = str ''date-desc'',
      localStorage = None\<rparr>"

definition demo_undated_manager :: TaskManager where
  "demo_undated_manager = demo_manager\<lparr>arrays := [[demo_done, demo_undated, demo_done_late]]\<rparr>"

definition demo_twin_manager :: TaskManager where
  "demo_twin_manager = demo_manager\<lparr>arrays := [[demo_done, demo_twin, demo_done_late]]\<rparr>"

definition demo_stored :: TaskManager where
  "demo_stored = demo_manager\<lparr>localStorage := Some (str ''[{}]'')\<rparr>"





section \<open>Strings\<close>

lemma trim_Nil: "trim [] = []"
  by (simp add: trim_def)

lemma trim_prefix_suffix: "\<exists>ws. dropWhile isWhiteSpace s = trim s @ ws"
proof -
  let ?u = "dropWhile isWhiteSpace s"
  have "?u = rev (rev ?u)" by simp
  also have "rev ?u = takeWhile isWhiteSpace (rev ?u) @ dropWhile isWhiteSpace (rev ?u)" by simp
  finally have "?u = rev (dropWhile isWhiteSpace (rev ?u)) @ rev (takeWhile isWhiteSpace (rev ?u))"
    by (metis rev_append rev_rev_ident)
  then show ?thesis unfolding trim_def by blast
qed

lemma trim_hd: "trim s \<noteq> [] \<Longrightarrow> \<not> isWhiteSpace (hd (trim s))"
proof -
  assume ne: "trim s \<noteq> []"
  obtain ws where ws: "dropWhile isWhiteSpace s = trim s @ ws" using trim_prefix_suffix by blast
  then have "hd (dropWhile isWhiteSpace s) = hd (trim s)" using ne by simp
  moreover have "dropWhile isWhiteSpace s \<noteq> []" using ws ne by simp
  ultimately show ?thesis using hd_dropWhile by metis
qed

lemma trim_idem: "trim (trim s) = trim s"
proof (cases "trim s = []")
  case True
  then show ?thesis by (simp add: trim_Nil)
next
  case False
  then have "\<not> isWhiteSpace (hd (trim s))"
    by (rule trim_hd)
  with False have "dropWhile isWhiteSpace (trim s) = trim s"
    by (cases "trim s") auto
  then have "trim (trim s) = rev (dropWhile isWhiteSpace (rev (trim s)))"
    by (simp add: trim_def)
  also have "\<dots> = rev (dropWhile isWhiteSpace (dropWhile isWhiteSpace (rev (dropWhile isWhiteSpace s))))"
    by (simp add: trim_def)
  also have "\<dots> = trim s"
    by (simp add: trim_def dropWhile_idem)
  finally show ?thesis .
qed

section \<open>Properties of the Task entity\<close>

lemma blank_iff: "(x = [] \<or> length (trim x) = 0) \<longleftrightarrow> trim x = []"
  by (auto simp: trim_Nil)

lemma String_valid_iff: "String s \<in> set (map String validStatuses) \<longleftrightarrow> s \<in> set validStatuses"
  by auto

lemma String_image_iff: "String s \<in> String ` A \<longleftrightarrow> s \<in> A"
  by auto

lemma validateInputs_String:
  "validateInputs (String ti) s =
     (if trim ti = [] then Inl EmptyTitle
      else if s \<notin> set (map String validStatuses) then Inl InvalidStatus else Inr ())"
  by (auto simp: validateInputs_def truthy_def trim_Nil)

lemma apply_title_cases:
  "apply_title p t =
     (case title_P p of None \<Rightarrow> Inr t
      | Some x \<Rightarrow> if trim x = [] then Inl EmptyTitle else Inr (t\<lparr>title := trim x\<rparr>))"
  unfolding apply_title_def blank_iff by simp

lemma update_invalid_status_aux:
  assumes "status_P p = Some s" and "s \<notin> set validStatuses"
  shows "update t p =
     (case apply_title p t of Inl err \<Rightarrow> (t, Some err)
      | Inr t1 \<Rightarrow> (apply_description p t1, Some InvalidStatus))"
  using assms by (simp add: update_def apply_status_def Let_def split: sum.splits)

text \<open>
  Claim C2, as the code has it. For every task and every partial update whose status is
  present but outside the closed set, \<open>Task.update\<close> throws a validation error. When the
  title is present and blank the error is the title's and the task is as it was. In every
  other case the error is the status's, and the task is left with the title (when
  present) and the description (when present) replaced by their trimmed new values: the
  call is not all-or-nothing. Id, status, priority, createdAt and colour are as they were
  in both cases.
\<close>

theorem update_invalid_status:
  assumes "status_P p = Some s" and "s \<notin> set validStatuses"
  shows "update t p =
           (case title_P p of
              None \<Rightarrow>
                (t\<lparr>description :=
                      (case description_P p of None \<Rightarrow> description t | Some y \<Rightarrow> trim y)\<rparr>,
                 Some InvalidStatus)
            | Some x \<Rightarrow>
                if trim x = [] then (t, Some EmptyTitle)
                else (t\<lparr>title := trim x,
                        description :=
                          (case description_P p of None \<Rightarrow> description t | Some y \<Rightarrow> trim y)\<rparr>,
                      Some InvalidStatus)) \<and>
         id_T (fst (update t p)) = id_T t \<and>
         status (fst (update t p)) = status t \<and>
         priority (fst (update t p)) = priority t \<and>
         createdAt (fst (update t p)) = createdAt t \<and>
         color (fst (update t p)) = color t"
  unfolding update_invalid_status_aux [OF assms]
  by (auto simp: apply_title_cases apply_description_def split: option.splits)

subsection \<open>Evaluation on the sample values\<close>

lemmas lit_defs = str_def a_faire_def en_cours_def terminee_def bloquee_def basse_def moyenne_def
  haute_def validStatuses_def colorMap_def
lemmas trim_defs = trim_def isWhiteSpace_def
lemmas update_defs = update_def apply_title_def apply_description_def apply_status_def
  apply_priority_def

lemma archivee_invalid: "str ''archivee'' \<notin> set validStatuses"
  by (simp add: lit_defs)

lemma update_demo:
  "update demo_task demo_partial = (demo_task\<lparr>title := str ''Bilan''\<rparr>, Some InvalidStatus)"
  by (simp add: update_defs demo_task_def demo_partial_def lit_defs trim_defs)

lemma demo_partial_status: "status_P demo_partial = Some (str ''archivee'')"
  by (simp add: demo_partial_def)

lemma demo_partial_title:
  "title_P demo_partial = Some (str '' Bilan '') \<and> description_P demo_partial = None"
  by (simp add: demo_partial_def)

lemma trim_Bilan: "trim (str '' Bilan '') = str ''Bilan''"
  by (simp add: str_def trim_defs)

lemma Bilan_not_blank: "str ''Bilan'' \<noteq> []"
  by (simp add: str_def)

theorem update_invalid_status_witness:
  "status_P demo_partial = Some (str ''archivee'') \<and> str ''archivee'' \<notin> set validStatuses \<and>
   update demo_task demo_partial = (demo_task\<lparr>title := str ''Bilan''\<rparr>, Some InvalidStatus) \<and>
   status (fst (update demo_task demo_partial)) = status demo_task \<and>
   priority (fst (update demo_task demo_partial)) = priority demo_task \<and>
   color (fst (update demo_task demo_partial)) = color demo_task"
  using update_invalid_status [OF demo_partial_status archivee_invalid, of demo_task]
    demo_partial_status archivee_invalid
  by (simp add: demo_partial_title trim_Bilan Bilan_not_blank)

text \<open>
  Claim C2 as stated fails: the update \<open>{title: ' Bilan ', status: 'archivee', priority:
  'basse'}\<close> throws for its status, and the title of the task has changed.
\<close>

theorem update_not_atomic_counterexample:
  "status_P demo_partial = Some (str ''archivee'') \<and> str ''archivee'' \<notin> set validStatuses \<and>
   snd (update demo_task demo_partial) = Some InvalidStatus \<and>
   title demo_task = str ''Rapport'' \<and>
   title (fst (update demo_task demo_partial)) = str ''Bilan''"
  using demo_partial_status archivee_invalid
  by (simp add: update_demo) (simp add: demo_task_def)

subsection \<open>Priority\<close>

lemma update_priority_only:
  "update t \<lparr>title_P = None, description_P = None, status_P = None, priority_P = Some x\<rparr> =
     (t\<lparr>priority := String x\<rparr>, None)"
  by (simp add: update_defs)

lemma update_error_priority: "snd (update t (q\<lparr>priority_P := y\<rparr>)) = snd (update t q)"
  by (simp add: update_defs Let_def split: option.splits sum.splits)

lemma update_stores_priority:
  "snd (update t q) = None \<Longrightarrow> priority_P q = Some x \<Longrightarrow> priority (fst (update t q)) = String x"
  by (auto simp: update_defs Let_def split: option.splits sum.splits if_splits)

lemma new_Task_priority:
  "trim ti \<noteq> [] \<Longrightarrow> s \<in> set validStatuses \<Longrightarrow>
   \<exists>t. new_Task e (String ti) (optional d) (String s) p = Inr t \<and>
       priority t = (if p = Undefined then String moyenne else p)"
  by (simp add: new_Task_def validateInputs_String String_valid_iff String_image_iff optional_def Let_def
      split: option.splits)

lemma new_Task_invalid_status:
  "trim ti \<noteq> [] \<Longrightarrow> s \<notin> set validStatuses \<Longrightarrow>
   new_Task e (String ti) d (String s) p = Inl InvalidStatus"
  by (simp add: new_Task_def validateInputs_String String_valid_iff String_image_iff Let_def)

lemma update_status_only_invalid:
  "s \<notin> set validStatuses \<Longrightarrow>
   update t \<lparr>title_P = None, description_P = None, status_P = Some s, priority_P = y\<rparr> =
     (t, Some InvalidStatus)"
  by (simp add: update_defs)

text \<open>
  Claim C10. No priority is ever checked. The constructor, given a title that is not blank
  and a status of the closed set, succeeds for every priority, a string or any other
  value, and stores it (\<open>moyenne\<close>, the default, when the argument is \<open>undefined\<close>); an
  update that carries only a priority succeeds and stores it;
  whether an update throws does not depend on its priority field, and an update that
  succeeds stores the priority it carries. A status outside the closed set, in contrast,
  makes both operations throw.
\<close>

theorem priority_never_validated:
  "(trim ti \<noteq> [] \<and> s \<in> set validStatuses \<longrightarrow>
      (\<exists>t. new_Task e (String ti) (optional d) (String s) p = Inr t \<and>
           priority t = (if p = Undefined then String moyenne else p))) \<and>
   update t \<lparr>title_P = None, description_P = None, status_P = None, priority_P = Some x\<rparr> =
     (t\<lparr>priority := String x\<rparr>, None) \<and>
   snd (update t (q\<lparr>priority_P := y\<rparr>)) = snd (update t q) \<and>
   (snd (update t q) = None \<and> priority_P q = Some x \<longrightarrow>
      priority (fst (update t q)) = String x) \<and>
   (trim ti \<noteq> [] \<and> s' \<notin> set validStatuses \<longrightarrow>
      new_Task e (String ti) (optional d) (String s') p = Inl InvalidStatus \<and>
      update t \<lparr>title_P = None, description_P = None, status_P = Some s', priority_P = Some x\<rparr> =
        (t, Some InvalidStatus))"
  by (intro conjI impI; (elim conjE)?)
     (simp_all add: new_Task_priority update_priority_only update_error_priority
        update_stores_priority new_Task_invalid_status update_status_only_invalid)

lemma Tests_not_blank: "trim (str ''Tests'') \<noteq> []"
  by (simp add: str_def trim_defs)

lemma a_faire_valid: "a_faire \<in> set validStatuses"
  by (simp add: validStatuses_def)

lemma urgente_outside: "str ''urgente'' \<notin> set [basse, moyenne, haute]"
  by (simp add: lit_defs)

theorem priority_never_validated_witness:
  "trim (str ''Tests'') \<noteq> [] \<and> a_faire \<in> set validStatuses \<and>
   str ''urgente'' \<notin> set [basse, moyenne, haute] \<and>
   str ''archivee'' \<notin> set validStatuses \<and>
   (\<exists>t. new_Task demo_entropy (String (str ''Tests'')) Undefined (String a_faire)
          (String (str ''urgente'')) = Inr t \<and>
        priority t = String (str ''urgente'')) \<and>
   update demo_task
     \<lparr>title_P = None, description_P = None, status_P = None, priority_P = Some (str ''urgente'')\<rparr> =
     (demo_task\<lparr>priority := String (str ''urgente'')\<rparr>, None) \<and>
   new_Task demo_entropy (String (str ''Tests'')) Undefined (String (str ''archivee''))
     (String (str ''urgente'')) = Inl InvalidStatus"
  using priority_never_validated [where ti = "str ''Tests''" and s = a_faire and e = demo_entropy
      and d = None and p = "String (str ''urgente'')" and x = "str ''urgente''" and t = demo_task
      and s' = "str ''archivee''"]
    Tests_not_blank a_faire_valid urgente_outside archivee_invalid
  by (simp add: optional_def)

section \<open>Identifiers\<close>

lemma digits_nonempty: "digits n \<noteq> []"
  by (subst digits.simps) simp

lemma unat_digit: "k < 10 \<Longrightarrow> unat (of_nat (48 + k) :: 16 word) = 48 + k"
proof -
  assume "k < 10"
  then have "48 + k < 2 ^ LENGTH(16)" by simp
  then show ?thesis by (intro of_nat_inverse [OF refl])
qed

lemma digits_range: "c \<in> set (digits n) \<Longrightarrow> 48 \<le> unat c \<and> unat c \<le> 57"
proof (induction n rule: digits.induct)
  case (1 n)
  show ?case
  proof (cases "n < 10")
    case True
    then have "digits n = [of_nat (48 + n)]" by (subst digits.simps) simp
    with "1.prems" have "c = of_nat (48 + n)" by simp
    with True unat_digit [of n] show ?thesis by (simp del: of_nat_add)
  next
    case False
    then have eq: "digits n = digits (n div 10) @ [of_nat (48 + n mod 10)]"
      by (subst digits.simps) simp
    from "1.prems" eq have "c \<in> set (digits (n div 10)) \<or> c = of_nat (48 + n mod 10)" by auto
    then show ?thesis
    proof
      assume "c \<in> set (digits (n div 10))"
      with "1.IH" False show ?thesis by simp
    next
      assume "c = of_nat (48 + n mod 10)"
      with unat_digit [of "n mod 10"] show ?thesis by (simp del: of_nat_add)
    qed
  qed
qed

lemma digits_inj: "digits n = digits m \<Longrightarrow> n = m"
proof (induction n arbitrary: m rule: digits.induct)
  case (1 n)
  show ?case
  proof (cases "n < 10")
    case n: True
    then have dn: "digits n = [of_nat (48 + n)]" by (subst digits.simps) simp
    show ?thesis
    proof (cases "m < 10")
      case True
      then have "digits m = [of_nat (48 + m)]" by (subst digits.simps) simp
      with dn "1.prems" have "(of_nat (48 + n) :: 16 word) = of_nat (48 + m)" by simp
      then have "unat (of_nat (48 + n) :: 16 word) = unat (of_nat (48 + m) :: 16 word)"
        by (rule arg_cong)
      with n True show ?thesis by (simp only: unat_digit)
    next
      case False
      then have "digits m = digits (m div 10) @ [of_nat (48 + m mod 10)]"
        by (subst digits.simps) simp
      with dn "1.prems" digits_nonempty [of "m div 10"] show ?thesis by (cases "digits (m div 10)") auto
    qed
  next
    case n: False
    then have dn: "digits n = digits (n div 10) @ [of_nat (48 + n mod 10)]"
      by (subst digits.simps) simp
    show ?thesis
    proof (cases "m < 10")
      case True
      then have "digits m = [of_nat (48 + m)]" by (subst digits.simps) simp
      with dn "1.prems" digits_nonempty [of "n div 10"] show ?thesis by (cases "digits (n div 10)") auto
    next
      case False
      then have "digits m = digits (m div 10) @ [of_nat (48 + m mod 10)]"
        by (subst digits.simps) simp
      with dn "1.prems" have a: "digits (n div 10) = digits (m div 10)"
        and b: "(of_nat (48 + n mod 10) :: 16 word) = of_nat (48 + m mod 10)" by simp_all
      from a "1.IH" n have "n div 10 = m div 10" by simp
      moreover from b have "unat (of_nat (48 + n mod 10) :: 16 word) = unat (of_nat (48 + m mod 10) :: 16 word)"
        by (rule arg_cong)
      then have "48 + n mod 10 = 48 + m mod 10" by (simp only: unat_digit [OF mod_less_divisor] zero_less_numeral)
      then have "n mod 10 = m mod 10" by simp
      ultimately show ?thesis by (metis div_mult_mod_eq)
    qed
  qed
qed

lemma digits_no_minus: "0x2D \<notin> set (digits n)"
proof
  assume "0x2D \<in> set (digits n)"
  then have "48 \<le> unat (0x2D :: 16 word)" using digits_range by blast
  then show False by simp
qed

lemma numberToString_inj: "numberToString a = numberToString b \<Longrightarrow> a = b"
proof -
  assume eq: "numberToString a = numberToString b"
  have neg_pos: False if "x < 0" "\<not> y < 0" "numberToString x = numberToString y" for x y
  proof -
    from that have "0x2D # digits (nat (- x)) = digits (nat y)" by (simp add: numberToString_def)
    then have "0x2D \<in> set (digits (nat y))" by (metis list.set_intros(1))
    with digits_no_minus show False by blast
  qed
  show ?thesis
  proof (cases "a < 0")
    case a: True
    show ?thesis
    proof (cases "b < 0")
      case True
      with a eq have "digits (nat (- a)) = digits (nat (- b))" by (simp add: numberToString_def)
      then have "nat (- a) = nat (- b)" by (rule digits_inj)
      with a True show ?thesis by simp
    next
      case False
      with a eq neg_pos show ?thesis by blast
    qed
  next
    case a: False
    show ?thesis
    proof (cases "b < 0")
      case True
      with a eq neg_pos [of b a] show ?thesis by simp
    next
      case False
      with a eq have "digits (nat a) = digits (nat b)" by (simp add: numberToString_def)
      then have "nat a = nat b" by (rule digits_inj)
      with a False show ?thesis by simp
    qed
  qed
qed

lemma numberToString_no_underscore: "0x5F \<notin> set (numberToString n)"
proof
  assume "0x5F \<in> set (numberToString n)"
  then have "0x5F \<in> set (digits (nat (- n))) \<or> 0x5F \<in> set (digits (nat n))"
    by (auto simp: numberToString_def split: if_splits)
  then have "unat (0x5F :: 16 word) \<le> 57" using digits_range by blast
  then show False by simp
qed

lemma split_at_separator:
  "xs @ c # ys = xs' @ c # ys' \<Longrightarrow> c \<notin> set xs \<Longrightarrow> c \<notin> set xs' \<Longrightarrow> xs = xs' \<and> ys = ys'"
proof (induction xs arbitrary: xs')
  case Nil
  then show ?case by (cases xs') auto
next
  case (Cons x xs)
  then show ?case by (cases xs') auto
qed

lemma generateId_eq_iff:
  "generateId e = generateId e' \<longleftrightarrow>
     Date_now e = Date_now e' \<and> substr (Math_random36 e) 2 9 = substr (Math_random36 e') 2 9"
proof
  assume "generateId e = generateId e'"
  then have "numberToString (Date_now e) @ 0x5F # substr (Math_random36 e) 2 9 =
             numberToString (Date_now e') @ 0x5F # substr (Math_random36 e') 2 9"
    by (simp add: generateId_def str_def)
  then have "numberToString (Date_now e) = numberToString (Date_now e') \<and>
             substr (Math_random36 e) 2 9 = substr (Math_random36 e') 2 9"
    by (rule split_at_separator) (rule numberToString_no_underscore)+
  then show "Date_now e = Date_now e' \<and> substr (Math_random36 e) 2 9 = substr (Math_random36 e') 2 9"
    using numberToString_inj by blast
next
  assume "Date_now e = Date_now e' \<and> substr (Math_random36 e) 2 9 = substr (Math_random36 e') 2 9"
  then show "generateId e = generateId e'" by (simp add: generateId_def)
qed

lemma new_Task_blank: "trim tb = [] \<Longrightarrow> new_Task e (String tb) d s p = Inl EmptyTitle"
  by (simp add: new_Task_def validateInputs_String Let_def)

lemma new_Task_ok:
  "trim ti \<noteq> [] \<Longrightarrow> (case s of None \<Rightarrow> a_faire | Some x \<Rightarrow> x) \<in> set validStatuses \<Longrightarrow>
   \<exists>t. new_Task e (String ti) (optional d) (optional s) p = Inr t \<and>
       id_T t = String (generateId e)"
  by (auto simp: new_Task_def validateInputs_String String_valid_iff String_image_iff optional_def Let_def
      split: option.splits)

text \<open>
  Claim C9, as the code has it. A title that is empty or blank makes the constructor throw
  the title error; a title that is not blank, with a status of the closed set, makes it
  succeed, and the id of the new task is \<open>generateId\<close> of what the environment gave:
  \<open>task_\<close>, the clock reading, \<open>_\<close>, and up to nine characters of the random draw. Two
  ids are equal exactly when clock reading and random characters are; nothing compares
  a new id with the ids of other tasks.
\<close>

theorem new_Task_title_and_id:
  "(trim tb = [] \<longrightarrow> new_Task e (String tb) (optional d) (optional s) p = Inl EmptyTitle) \<and>
   (trim ti \<noteq> [] \<and> (case s of None \<Rightarrow> a_faire | Some x \<Rightarrow> x) \<in> set validStatuses \<longrightarrow>
      (\<exists>t. new_Task e (String ti) (optional d) (optional s) p = Inr t \<and>
           id_T t = String (generateId e))) \<and>
   (generateId e = generateId e' \<longleftrightarrow>
      Date_now e = Date_now e' \<and> substr (Math_random36 e) 2 9 = substr (Math_random36 e') 2 9)"
  using new_Task_blank [of tb e "optional d" "optional s" p] new_Task_ok [of ti s e d p]
    generateId_eq_iff [of e e']
  by blast

lemma spaces_blank: "trim (str ''   '') = []"
  by (simp add: str_def trim_defs)

lemma generateId_demo: "generateId demo_entropy = str ''task_1000_k3j9x2m1q''"
  by (simp add: generateId_def demo_entropy_def numberToString_def digits.simps substr_def str_def)

lemma new_Task_demo:
  "new_Task demo_entropy (String ti) Undefined Undefined Undefined =
     (if trim ti = [] then Inl EmptyTitle
      else Inr \<lparr>id_T = String (str ''task_1000_k3j9x2m1q''), title = trim ti, description = [],
                status = a_faire, priority = String moyenne, createdAt = Some 1000,
                color = String (str ''#3498db'')\<rparr>)"
  by (simp add: new_Task_def validateInputs_String a_faire_valid generateId_demo trim_Nil)
     (simp add: demo_entropy_def getColorByStatus_def colorMap_def)

theorem new_Task_title_and_id_witness:
  "trim (str ''   '') = [] \<and> trim (str ''Tests'') \<noteq> [] \<and> a_faire \<in> set validStatuses \<and>
   new_Task demo_entropy (String (str ''   '')) Undefined Undefined Undefined = Inl EmptyTitle \<and>
   (\<exists>t. new_Task demo_entropy (String (str ''Tests'')) Undefined Undefined Undefined = Inr t \<and>
        id_T t = String (str ''task_1000_k3j9x2m1q'')) \<and>
   generateId demo_entropy \<noteq> generateId (demo_entropy\<lparr>Date_now := 1001\<rparr>)"
  using new_Task_title_and_id [where tb = "str ''   ''" and ti = "str ''Tests''" and e = demo_entropy
      and d = None and s = None and p = Undefined and e' = "demo_entropy\<lparr>Date_now := 1001\<rparr>"]
    spaces_blank Tests_not_blank a_faire_valid
  by (simp add: generateId_demo optional_def) (simp add: demo_entropy_def)

text \<open>
  Claim C9 as stated fails in its last part: two constructions that read the same clock
  value and draw the same random number yield two tasks with one id.
\<close>

theorem new_Task_same_id_counterexample:
  "new_Task demo_entropy (String (str ''Tests'')) Undefined Undefined Undefined =
     Inr \<lparr>id_T = String (str ''task_1000_k3j9x2m1q''), title = str ''Tests'', description = [],
          status = a_faire, priority = String moyenne, createdAt = Some 1000,
          color = String (str ''#3498db'')\<rparr> \<and>
   new_Task demo_entropy (String (str ''Revue'')) Undefined Undefined Undefined =
     Inr \<lparr>id_T = String (str ''task_1000_k3j9x2m1q''), title = str ''Revue'', description = [],
          status = a_faire, priority = String moyenne, createdAt = Some 1000,
          color = String (str ''#3498db'')\<rparr>"
  unfolding new_Task_demo by (simp add: str_def trim_defs)

section \<open>Colour and serialisation\<close>

lemma new_Task_Inr:
  "new_Task e ti d s p = Inr t \<Longrightarrow>
   (\<exists>x. ti = String x \<and> trim x \<noteq> [] \<and> title t = trim x) \<and>
   (d = Undefined \<and> description t = [] \<or> (\<exists>y. d = String y \<and> description t = trim y)) \<and>
   (s = Undefined \<and> status t = a_faire \<or> s = String (status t)) \<and>
   status t \<in> set validStatuses \<and>
   priority t = (if p = Undefined then String moyenne else p) \<and>
   id_T t = String (generateId e) \<and> createdAt t = Some (new_Date e) \<and>
   color t = getColorByStatus (status t)"
  by (cases ti; cases d; cases s)
     (auto simp: new_Task_def validateInputs_def Let_def trim_Nil a_faire_valid
       split: if_splits)

lemma new_Task_color: "new_Task e ti d s p = Inr t \<Longrightarrow> color t = getColorByStatus (status t)"
  by (simp add: new_Task_Inr)

lemma update_color:
  "color t = getColorByStatus (status t) \<Longrightarrow>
   color (fst (update t q)) = getColorByStatus (status (fst (update t q)))"
  by (auto simp: update_def apply_title_def apply_description_def apply_status_def apply_priority_def
      Let_def split: option.splits sum.splits if_splits)

lemma fromJSON_Inr:
  "fromJSON P e d = Inr t \<Longrightarrow>
   \<exists>t0. new_Task e (property d (str ''title'')) (property d (str ''description''))
          (property d (str ''status'')) (property d (str ''priority'')) = Inr t0 \<and>
        t = t0\<lparr>id_T := property d (str ''id''),
               createdAt := new_Date_of P (property d (str ''createdAt'')),
               color := property d (str ''color'')\<rparr>"
  by (auto simp: fromJSON_def split: if_splits sum.splits)

lemma fromJSON_fields:
  assumes "fromJSON P e d = Inr t"
  shows "id_T t = property d (str ''id'')"
    and "createdAt t = new_Date_of P (property d (str ''createdAt''))"
    and "color t = property d (str ''color'')"
    and "property d (str ''status'') = Undefined \<and> status t = a_faire \<or>
         property d (str ''status'') = String (status t)"
    and "status t \<in> set validStatuses"
    and "\<exists>x. property d (str ''title'') = String x \<and> trim x \<noteq> [] \<and> title t = trim x"
    and "property d (str ''description'') = Undefined \<and> description t = [] \<or>
         (\<exists>y. property d (str ''description'') = String y \<and> description t = trim y)"
    and "priority t =
           (if property d (str ''priority'') = Undefined then String moyenne
            else property d (str ''priority''))"
proof -
  from fromJSON_Inr [OF assms] obtain t0 where
    t0: "new_Task e (property d (str ''title'')) (property d (str ''description''))
          (property d (str ''status'')) (property d (str ''priority'')) = Inr t0"
    and t: "t = t0\<lparr>id_T := property d (str ''id''),
               createdAt := new_Date_of P (property d (str ''createdAt'')),
               color := property d (str ''color'')\<rparr>"
    by blast
  note n = new_Task_Inr [OF t0]
  show "id_T t = property d (str ''id'')"
    and "createdAt t = new_Date_of P (property d (str ''createdAt''))"
    and "color t = property d (str ''color'')"
    by (simp_all add: t)
  show "property d (str ''status'') = Undefined \<and> status t = a_faire \<or>
         property d (str ''status'') = String (status t)"
    using n by (simp add: t)
  show "status t \<in> set validStatuses" using n by (simp add: t)
  show "\<exists>x. property d (str ''title'') = String x \<and> trim x \<noteq> [] \<and> title t = trim x"
    using n by (simp add: t)
  show "property d (str ''description'') = Undefined \<and> description t = [] \<or>
         (\<exists>y. property d (str ''description'') = String y \<and> description t = trim y)"
    using n by (simp add: t)
  show "priority t =
           (if property d (str ''priority'') = Undefined then String moyenne
            else property d (str ''priority''))"
    using n by (simp add: t)
qed

lemma toJSON_Inr:
  "toJSON P t = Inr d \<Longrightarrow>
   \<exists>ms. createdAt t = Some ms \<and>
     d = Object
           [(str ''id'', id_T t), (str ''title'', String (title t)),
            (str ''description'', String (description t)),
            (str ''status'', String (status t)), (str ''priority'', priority t),
            (str ''createdAt'', String (toISOString P ms)), (str ''color'', color t)]"
  by (auto simp: toJSON_def split: option.splits)

lemma property_toJSON:
  "property (Object
           [(str ''id'', i), (str ''title'', ti),
            (str ''description'', de),
            (str ''status'', st), (str ''priority'', pr),
            (str ''createdAt'', cr), (str ''color'', co)]) k =
     (if k = str ''id'' then i else if k = str ''title'' then ti
      else if k = str ''description'' then de else if k = str ''status'' then st
      else if k = str ''priority'' then pr else if k = str ''createdAt'' then cr
      else if k = str ''color'' then co else Undefined)"
  by (simp add: property_def)

lemma key_distinct:
  "str ''title'' \<noteq> str ''id''" "str ''description'' \<noteq> str ''id''" "str ''status'' \<noteq> str ''id''"
  "str ''priority'' \<noteq> str ''id''" "str ''createdAt'' \<noteq> str ''id''" "str ''color'' \<noteq> str ''id''"
  "str ''description'' \<noteq> str ''title''" "str ''status'' \<noteq> str ''title''"
  "str ''priority'' \<noteq> str ''title''" "str ''createdAt'' \<noteq> str ''title''"
  "str ''color'' \<noteq> str ''title''" "str ''status'' \<noteq> str ''description''"
  "str ''priority'' \<noteq> str ''description''" "str ''createdAt'' \<noteq> str ''description''"
  "str ''color'' \<noteq> str ''description''" "str ''priority'' \<noteq> str ''status''"
  "str ''createdAt'' \<noteq> str ''status''" "str ''color'' \<noteq> str ''status''"
  "str ''createdAt'' \<noteq> str ''priority''" "str ''color'' \<noteq> str ''priority''"
  "str ''color'' \<noteq> str ''createdAt''"
  by (simp_all add: str_def)

lemma toJSON_fromJSON_fields:
  assumes "toJSON P t = Inr d" and "fromJSON P e d = Inr t'"
  shows "status t' = status t \<and> color t' = color t \<and> id_T t' = id_T t"
proof -
  from toJSON_Inr [OF assms(1)] obtain ms where
    d: "d = Object
           [(str ''id'', id_T t), (str ''title'', String (title t)),
            (str ''description'', String (description t)),
            (str ''status'', String (status t)), (str ''priority'', priority t),
            (str ''createdAt'', String (toISOString P ms)), (str ''color'', color t)]"
    by blast
  from fromJSON_fields(1,3,4) [OF assms(2)] show ?thesis
    unfolding d property_toJSON by (simp add: key_distinct)
qed

lemma map_result_set:
  "map_result f xs = Inr ys \<Longrightarrow> y \<in> set ys \<Longrightarrow> \<exists>x\<in>set xs. f x = Inr y"
proof (induction xs arbitrary: ys)
  case Nil
  then show ?case by simp
next
  case (Cons a xs)
  then show ?case by (auto split: sum.splits)
qed

lemma array_at_assign_tasks:
  "array_at (assign_tasks xs m) (tasks (assign_tasks xs m)) = xs"
  by (simp add: assign_tasks_def new_array_def array_at_def)

lemma load_cases:
  "load P e m = Inr m' \<Longrightarrow>
   m' = m \<or> array_at m' (tasks m') = [] \<or>
   (\<exists>blob ds ts. localStorage m = Some blob \<and> JSON_parse P blob = Some (Array ds) \<and>
      map_result (fromJSON P e) ds = Inr ts \<and> array_at m' (tasks m') = ts)"
  by (auto simp: load_def load_try_def array_at_assign_tasks
      split: if_splits option.splits sum.splits js_value.splits)

lemma load_color:
  assumes pre: "\<forall>x\<in>set (array_at m (tasks m)). color x = getColorByStatus (status x)"
    and stored: "\<forall>blob ds. localStorage m = Some blob \<and> JSON_parse P blob = Some (Array ds) \<longrightarrow>
                   (\<forall>x\<in>set ds.
                      (property x (str ''status'') = Undefined \<longrightarrow>
                         property x (str ''color'') = getColorByStatus a_faire) \<and>
                      (\<forall>s. property x (str ''status'') = String s \<longrightarrow>
                         property x (str ''color'') = getColorByStatus s))"
    and load: "load P e m = Inr m'"
  shows "\<forall>x\<in>set (array_at m' (tasks m')). color x = getColorByStatus (status x)"
proof
  fix x assume x: "x \<in> set (array_at m' (tasks m'))"
  from load_cases [OF load] consider "m' = m" | "array_at m' (tasks m') = []"
    | blob ds ts where "localStorage m = Some blob" "JSON_parse P blob = Some (Array ds)"
        "map_result (fromJSON P e) ds = Inr ts" "array_at m' (tasks m') = ts"
    by blast
  then show "color x = getColorByStatus (status x)"
  proof cases
    case 1
    with pre x show ?thesis by simp
  next
    case 2
    with x show ?thesis by simp
  next
    case 3
    with x obtain d where d: "d \<in> set ds" "fromJSON P e d = Inr x"
      using map_result_set by fastforce
    from 3 stored d have
      "(property d (str ''status'') = Undefined \<longrightarrow>
          property d (str ''color'') = getColorByStatus a_faire) \<and>
       (\<forall>s. property d (str ''status'') = String s \<longrightarrow>
          property d (str ''color'') = getColorByStatus s)"
      by blast
    with fromJSON_fields(3,4) [OF d(2)] show ?thesis by auto
  qed
qed

text \<open>
  Claim C1, as the code has it. A task built by the constructor has the colour of its
  status, and \<open>Task.update\<close> keeps that, whether it returns or throws. \<open>Task.fromJSON\<close>
  gives the task the status of the stored record, or \<open>a faire\<close> when the record has none,
  and whatever the record holds as \<open>color\<close>, \<open>undefined\<close> when it holds none. A record
  written by \<open>toJSON\<close> is read back with the status and the colour of the task it was
  written from. After \<open>TaskManager.load\<close> every task of the collection has the colour of
  its status, provided the tasks held before had, and every stored record holds the
  colour of its status, or that of \<open>a faire\<close> when it has no status.
\<close>

theorem color_follows_status:
  "(new_Task e ti d s p = Inr t \<longrightarrow> color t = getColorByStatus (status t)) \<and>
   (color t0 = getColorByStatus (status t0) \<longrightarrow>
      color (fst (update t0 q)) = getColorByStatus (status (fst (update t0 q)))) \<and>
   (fromJSON P e dat = Inr t1 \<longrightarrow>
      color t1 = property dat (str ''color'') \<and>
      (property dat (str ''status'') = Undefined \<and> status t1 = a_faire \<or>
       property dat (str ''status'') = String (status t1))) \<and>
   (toJSON P t2 = Inr dat2 \<and> fromJSON P e dat2 = Inr t3 \<longrightarrow>
      status t3 = status t2 \<and> color t3 = color t2) \<and>
   ((\<forall>x\<in>set (array_at m (tasks m)). color x = getColorByStatus (status x)) \<and>
    (\<forall>blob ds. localStorage m = Some blob \<and> JSON_parse P blob = Some (Array ds) \<longrightarrow>
       (\<forall>x\<in>set ds.
          (property x (str ''status'') = Undefined \<longrightarrow>
             property x (str ''color'') = getColorByStatus a_faire) \<and>
          (\<forall>s. property x (str ''status'') = String s \<longrightarrow>
             property x (str ''color'') = getColorByStatus s))) \<and>
    load P e m = Inr m' \<longrightarrow>
      (\<forall>x\<in>set (array_at m' (tasks m')). color x = getColorByStatus (status x)))"
proof (intro conjI impI)
  assume "new_Task e ti d s p = Inr t"
  then show "color t = getColorByStatus (status t)" by (rule new_Task_color)
next
  assume "color t0 = getColorByStatus (status t0)"
  then show "color (fst (update t0 q)) = getColorByStatus (status (fst (update t0 q)))"
    by (rule update_color)
next
  assume a: "fromJSON P e dat = Inr t1"
  show "color t1 = property dat (str ''color'')" by (rule fromJSON_fields(3) [OF a])
  show "property dat (str ''status'') = Undefined \<and> status t1 = a_faire \<or>
       property dat (str ''status'') = String (status t1)"
    by (rule fromJSON_fields(4) [OF a])
next
  assume a: "toJSON P t2 = Inr dat2 \<and> fromJSON P e dat2 = Inr t3"
  then show "status t3 = status t2" "color t3 = color t2"
    using toJSON_fromJSON_fields by blast+
next
  assume "(\<forall>x\<in>set (array_at m (tasks m)). color x = getColorByStatus (status x)) \<and>
    (\<forall>blob ds. localStorage m = Some blob \<and> JSON_parse P blob = Some (Array ds) \<longrightarrow>
       (\<forall>x\<in>set ds.
          (property x (str ''status'') = Undefined \<longrightarrow>
             property x (str ''color'') = getColorByStatus a_faire) \<and>
          (\<forall>s. property x (str ''status'') = String s \<longrightarrow>
             property x (str ''color'') = getColorByStatus s))) \<and>
    load P e m = Inr m'"
  then show "\<forall>x\<in>set (array_at m' (tasks m')). color x = getColorByStatus (status x)"
    using load_color [of m P e m'] by blast
qed

subsection \<open>The class invariant\<close>

lemma new_Task_inv: "new_Task e ti d s p = Inr t \<Longrightarrow> Task_inv t \<and> createdAt t = Some (new_Date e)"
  using new_Task_Inr [of e ti d s p t]
  by (auto simp: Task_inv_def trim_idem trim_Nil moyenne_def str_def)

lemma update_inv: "Task_inv t \<Longrightarrow> Task_inv (fst (update t q)) \<and> createdAt (fst (update t q)) = createdAt t"
  by (auto simp: update_def apply_title_cases apply_description_def apply_status_def
      apply_priority_def Task_inv_def trim_idem Let_def split: option.splits sum.splits if_splits)

lemma fromJSON_inv: "fromJSON P e d = Inr t \<Longrightarrow> Task_inv t"
  by (auto simp: Task_inv_def dest!: fromJSON_Inr new_Task_inv)

lemma toJSON_invalid_date: "createdAt t = None \<Longrightarrow> toJSON P t = Inl RangeError"
  by (simp add: toJSON_def)

lemma roundtrip_aux:
  assumes "Task_inv t" and "createdAt t = Some ms"
  shows "\<exists>d. toJSON P t = Inr d \<and>
             fromJSON P e d = Inr (t\<lparr>createdAt := Date_parse P (toISOString P ms)\<rparr>)"
proof -
  let ?d = "Object
           [(str ''id'', id_T t), (str ''title'', String (title t)),
            (str ''description'', String (description t)),
            (str ''status'', String (status t)), (str ''priority'', priority t),
            (str ''createdAt'', String (toISOString P ms)), (str ''color'', color t)]"
  from assms(2) have "toJSON P t = Inr ?d" by (simp add: toJSON_def)
  moreover from assms(1) have v: "validateInputs (String (title t)) (String (status t)) = Inr ()"
    by (simp add: validateInputs_String Task_inv_def String_image_iff)
  from assms(1) have "new_Task e (String (title t)) (String (description t)) (String (status t))
      (priority t) = Inr (t\<lparr>id_T := String (generateId e), createdAt := Some (new_Date e),
                            color := getColorByStatus (status t)\<rparr>)"
    by (simp add: new_Task_def v Task_inv_def Let_def)
  then have "fromJSON P e ?d = Inr (t\<lparr>createdAt := Date_parse P (toISOString P ms)\<rparr>)"
    unfolding fromJSON_def property_toJSON
    by (simp add: key_distinct new_Date_of_def)
  ultimately show ?thesis by blast
qed

text \<open>
  Claim C3, as the code has it. If a task \<open>t\<close> satisfies the class invariant and its
  creation date is a valid date, \<open>toJSON\<close> returns a record, and \<open>fromJSON\<close> of that
  record returns a task with the id, title, description, status, priority and colour
  of \<open>t\<close>, and with the creation date the platform reads from the timestamp it printed:
  the task \<open>t\<close> itself when that is the date printed. If the creation date of a task is
  an Invalid Date, \<open>toJSON\<close> throws a RangeError and there is nothing to read back.
\<close>

theorem toJSON_fromJSON_roundtrip:
  "(Task_inv t \<and> createdAt t = Some ms \<longrightarrow>
      (\<exists>d. toJSON P t = Inr d \<and>
           fromJSON P e d = Inr (t\<lparr>createdAt := Date_parse P (toISOString P ms)\<rparr>))) \<and>
   (Task_inv t \<and> createdAt t = Some ms \<and> Date_parse P (toISOString P ms) = Some ms \<longrightarrow>
      (\<exists>d. toJSON P t = Inr d \<and> fromJSON P e d = Inr t)) \<and>
   (createdAt t' = None \<longrightarrow> toJSON P t' = Inl RangeError)"
proof (intro conjI impI)
  assume "Task_inv t \<and> createdAt t = Some ms"
  then show "\<exists>d. toJSON P t = Inr d \<and>
                 fromJSON P e d = Inr (t\<lparr>createdAt := Date_parse P (toISOString P ms)\<rparr>)"
    using roundtrip_aux by blast
next
  assume a: "Task_inv t \<and> createdAt t = Some ms \<and> Date_parse P (toISOString P ms) = Some ms"
  then have "t\<lparr>createdAt := Date_parse P (toISOString P ms)\<rparr> = t" by simp
  with a show "\<exists>d. toJSON P t = Inr d \<and> fromJSON P e d = Inr t"
    using roundtrip_aux [of t ms P e] by auto
next
  assume "createdAt t' = None"
  then show "toJSON P t' = Inl RangeError" by (rule toJSON_invalid_date)
qed

subsection \<open>Evaluation on the sample values\<close>

lemmas js_defs = truthy_def property_def new_Date_of_def getColorByStatus_def validateInputs_def

lemma status_demo_done: "status demo_done = terminee"
  by (simp add: demo_done_def)

lemma color_terminee: "getColorByStatus terminee = String (str ''#27ae60'')"
  by (simp add: getColorByStatus_def lit_defs)

lemma color_demo_done: "color demo_done = getColorByStatus (status demo_done)"
  by (simp add: status_demo_done color_terminee) (simp add: demo_done_def)

lemma color_demo_task: "color demo_task = getColorByStatus (status demo_task)"
  by (simp add: demo_task_def getColorByStatus_def lit_defs)

lemma color_demo_data:
  "property demo_data (str ''status'') = String terminee \<and>
   property demo_data (str ''color'') = String (str ''#27ae60'')"
  by (simp add: demo_data_def property_def str_def)

lemma Task_inv_demo_done: "Task_inv demo_done"
  by (simp add: Task_inv_def demo_done_def lit_defs trim_defs)

lemma Date_parse_demo: "Date_parse demo_platform (toISOString demo_platform 0) = Some 0"
  by (simp add: demo_platform_def)

lemma toJSON_demo: "toJSON demo_platform demo_done = Inr demo_data"
  by (simp add: toJSON_def demo_done_def demo_data_def demo_platform_def)

lemma fromJSON_demo: "fromJSON demo_platform demo_entropy demo_data = Inr demo_done"
  by (simp add: fromJSON_def new_Task_def js_defs Let_def demo_data_def demo_done_def
      demo_platform_def lit_defs trim_defs)

lemma fromJSON_demo_blue:
  "fromJSON demo_platform demo_entropy demo_data_blue =
     Inr (demo_done\<lparr>color := String (str ''#3498db'')\<rparr>)"
  by (simp add: fromJSON_def new_Task_def js_defs Let_def demo_data_blue_def
      demo_done_def demo_platform_def lit_defs trim_defs)

lemma fromJSON_demo_bare: "fromJSON demo_platform demo_entropy demo_data_bare = Inr demo_bare"
  by (simp add: fromJSON_def new_Task_def js_defs Let_def demo_data_bare_def
      demo_bare_def demo_platform_def lit_defs trim_defs)

lemma Task_inv_demo_bare: "Task_inv demo_bare"
  by (simp add: Task_inv_def demo_bare_def lit_defs trim_defs)

lemma new_Task_demo_new:
  "new_Task demo_entropy (String (str ''Tests'')) Undefined Undefined Undefined = Inr demo_new"
  unfolding new_Task_demo demo_new_def by (simp add: str_def trim_defs)

lemma tasks_demo_stored: "array_at demo_stored (tasks demo_stored) = [demo_done, demo_task, demo_done_late]"
  by (simp add: demo_stored_def demo_manager_def array_at_def)

lemma blob_demo_stored: "localStorage demo_stored = Some (str ''[{}]'')"
  by (simp add: demo_stored_def)

lemma parse_demo: "JSON_parse demo_platform (str ''[{}]'') = Some (Array [demo_data])"
  by (simp add: demo_platform_def str_def)

lemma getItem_demo: "\<not> getItem_throws demo_platform"
  by (simp add: demo_platform_def)

lemma load_demo_stored:
  "load demo_platform demo_entropy demo_stored = Inr (assign_tasks [demo_done] demo_stored)"
  by (simp add: load_def load_try_def blob_demo_stored parse_demo fromJSON_demo getItem_demo)
     (simp add: str_def)

lemma pre_demo_stored:
  "\<forall>x\<in>set (array_at demo_stored (tasks demo_stored)). color x = getColorByStatus (status x)"
  by (simp add: tasks_demo_stored color_demo_done color_demo_task)
     (simp add: demo_done_late_def color_terminee)

lemma stored_demo_stored:
  "\<forall>blob ds. localStorage demo_stored = Some blob \<and> JSON_parse demo_platform blob = Some (Array ds) \<longrightarrow>
     (\<forall>x\<in>set ds.
        (property x (str ''status'') = Undefined \<longrightarrow>
           property x (str ''color'') = getColorByStatus a_faire) \<and>
        (\<forall>s. property x (str ''status'') = String s \<longrightarrow>
           property x (str ''color'') = getColorByStatus s))"
  by (auto simp: blob_demo_stored parse_demo color_demo_data color_terminee)

theorem color_follows_status_witness:
  "new_Task demo_entropy (String (str ''Tests'')) Undefined Undefined Undefined = Inr demo_new \<and>
   color demo_new = getColorByStatus (status demo_new) \<and>
   color demo_task = getColorByStatus (status demo_task) \<and>
   color (fst (update demo_task demo_blocked)) =
     getColorByStatus (status (fst (update demo_task demo_blocked))) \<and>
   fromJSON demo_platform demo_entropy demo_data = Inr demo_done \<and>
   color demo_done = property demo_data (str ''color'') \<and>
   property demo_data (str ''status'') = String (status demo_done) \<and>
   toJSON demo_platform demo_done = Inr demo_data \<and>
   load demo_platform demo_entropy demo_stored = Inr (assign_tasks [demo_done] demo_stored) \<and>
   array_at (assign_tasks [demo_done] demo_stored) (tasks (assign_tasks [demo_done] demo_stored)) =
     [demo_done] \<and>
   color demo_done = getColorByStatus (status demo_done)"
  using color_follows_status [where e = demo_entropy and ti = "String (str ''Tests'')"
      and d = Undefined and s = Undefined and p = Undefined and t = demo_new
      and ?t0.0 = demo_task and q = demo_blocked
      and P = demo_platform and dat = demo_data and ?t1.0 = demo_done
      and ?t2.0 = demo_done and ?dat2.0 = demo_data and ?t3.0 = demo_done and m = demo_stored
      and m' = "assign_tasks [demo_done] demo_stored"]
    new_Task_demo_new color_demo_task fromJSON_demo toJSON_demo load_demo_stored pre_demo_stored
    stored_demo_stored color_demo_data color_demo_done
  by (simp add: array_at_assign_tasks status_demo_done)

text \<open>
  Claim C1 as stated fails: a stored record with status \<open>terminee\<close> and the colour of
  \<open>a faire\<close> is deserialized into a task whose colour is not that of its status.
\<close>

theorem fromJSON_color_counterexample:
  "fromJSON demo_platform demo_entropy demo_data_blue =
     Inr (demo_done\<lparr>color := String (str ''#3498db'')\<rparr>) \<and>
   status (demo_done\<lparr>color := String (str ''#3498db'')\<rparr>) = terminee \<and>
   getColorByStatus terminee = String (str ''#27ae60'') \<and>
   color (demo_done\<lparr>color := String (str ''#3498db'')\<rparr>) \<noteq>
     getColorByStatus (status (demo_done\<lparr>color := String (str ''#3498db'')\<rparr>))"
  by (simp add: fromJSON_demo_blue status_demo_done color_terminee) (simp add: str_def)

lemma createdAt_demo_bare: "createdAt demo_bare = None"
  by (simp add: demo_bare_def)

theorem toJSON_fromJSON_roundtrip_witness:
  "Task_inv demo_done \<and> createdAt demo_done = Some 0 \<and>
   Date_parse demo_platform (toISOString demo_platform 0) = Some 0 \<and>
   (\<exists>d. toJSON demo_platform demo_done = Inr d \<and>
        fromJSON demo_platform demo_entropy d = Inr demo_done) \<and>
   toJSON demo_platform demo_done = Inr demo_data \<and>
   fromJSON demo_platform demo_entropy demo_data = Inr demo_done \<and>
   createdAt demo_bare = None \<and> toJSON demo_platform demo_bare = Inl RangeError"
  using toJSON_fromJSON_roundtrip [where t = demo_done and ms = 0 and P = demo_platform
      and e = demo_entropy and t' = demo_bare]
    Task_inv_demo_done Date_parse_demo toJSON_demo fromJSON_demo createdAt_demo_bare
  by (simp add: demo_done_def)

text \<open>
  Claim C3 as stated fails: the stored record \<open>{title: 'x'}\<close> is deserialized into a task
  that satisfies the class invariant and holds an Invalid Date, and \<open>toJSON\<close> of that task
  throws.
\<close>

theorem toJSON_invalid_date_counterexample:
  "fromJSON demo_platform demo_entropy demo_data_bare = Inr demo_bare \<and>
   Task_inv demo_bare \<and> createdAt demo_bare = None \<and>
   toJSON demo_platform demo_bare = Inl RangeError"
  by (simp add: fromJSON_demo_bare Task_inv_demo_bare toJSON_def) (simp add: demo_bare_def)

section \<open>Queries\<close>

lemma getFilteredTasks_result:
  "array_at (snd (getFilteredTasks P m)) (fst (getFilteredTasks P m)) =
     filtered_view P m (array_at m (tasks m))"
  by (simp add: getFilteredTasks_def filtered_view_def new_array_def array_at_def array_set_def
      Let_def nth_append)

lemma getFilteredTasks_fields:
  "tasks (snd (getFilteredTasks P m)) = tasks m \<and>
   currentFilter (snd (getFilteredTasks P m)) = currentFilter m \<and>
   currentSearch (snd (getFilteredTasks P m)) = currentSearch m \<and>
   currentSort (snd (getFilteredTasks P m)) = currentSort m \<and>
   localStorage (snd (getFilteredTasks P m)) = localStorage m"
  by (simp add: getFilteredTasks_def new_array_def array_set_def Let_def)

lemma getFilteredTasks_arrays:
  "take (length (arrays m)) (arrays (snd (getFilteredTasks P m))) = arrays m \<and>
   length (arrays m) \<le> fst (getFilteredTasks P m) \<and>
   fst (getFilteredTasks P m) < length (arrays (snd (getFilteredTasks P m)))"
  by (simp add: getFilteredTasks_def new_array_def array_set_def array_at_def Let_def
      list_update_append)

lemma take_length_le: "take (length ys) xs = ys \<Longrightarrow> length ys \<le> length xs"
proof -
  assume "take (length ys) xs = ys"
  then have "length (take (length ys) xs) = length ys" by simp
  then show ?thesis by (simp add: min_def split: if_splits)
qed

lemma untouched_trans: "untouched m m' \<Longrightarrow> untouched m' m'' \<Longrightarrow> untouched m m''"
proof -
  assume a: "untouched m m'" and b: "untouched m' m''"
  from a have "length (arrays m) \<le> length (arrays m')"
    unfolding untouched_def by (blast intro: take_length_le)
  then have "take (length (arrays m)) (arrays m'') =
             take (length (arrays m)) (take (length (arrays m')) (arrays m''))"
    by (simp add: min_def)
  with a b show ?thesis unfolding untouched_def by simp
qed

lemma untouched_sequence:
  "untouched m m' \<Longrightarrow> tasks m < length (arrays m) \<Longrightarrow>
   array_at m' (tasks m') = array_at m (tasks m) \<and> tasks m' < length (arrays m')"
proof -
  assume a: "untouched m m'" and wf: "tasks m < length (arrays m)"
  from a have t: "take (length (arrays m)) (arrays m') = arrays m" and r: "tasks m' = tasks m"
    unfolding untouched_def by simp_all
  from t have len: "length (arrays m) \<le> length (arrays m')" by (rule take_length_le)
  from wf have "arrays m ! tasks m = take (length (arrays m)) (arrays m') ! tasks m" using t by simp
  also from wf have "\<dots> = arrays m' ! tasks m" by simp
  finally show ?thesis using r wf len by (simp add: array_at_def)
qed

lemma getFilteredTasks_untouched: "untouched m (snd (getFilteredTasks P m))"
  by (simp add: untouched_def getFilteredTasks_fields getFilteredTasks_arrays)

lemma updateUI_untouched: "untouched m (updateUI P m)"
  by (simp add: updateUI_def getFilteredTasks_untouched)

lemma filterByStatus_untouched: "untouched m (snd (filterByStatus P s m))"
proof -
  have "untouched m (m\<lparr>currentFilter := s\<rparr>)" by (simp add: untouched_def)
  then show ?thesis
    unfolding filterByStatus_def
    by (blast intro: untouched_trans updateUI_untouched getFilteredTasks_untouched)
qed

lemma search_untouched: "untouched m (snd (search P x m))"
proof -
  have "untouched m (m\<lparr>currentSearch := toLowerCase P x\<rparr>)" by (simp add: untouched_def)
  then show ?thesis
    unfolding search_def
    by (blast intro: untouched_trans updateUI_untouched getFilteredTasks_untouched)
qed

text \<open>
  Claim C8. \<open>getFilteredTasks\<close>, \<open>filterByStatus\<close> and \<open>search\<close>, for every filter,
  search text and sort key, leave every existing array as it was, the stored sequence
  among them, and leave the manager's reference to it and the stored item as they were.
  The array they return is a new one: sorting it in place sorts the view only.
\<close>

theorem queries_leave_collection:
  "untouched m (snd (getFilteredTasks P m)) \<and>
   untouched m (snd (filterByStatus P s m)) \<and>
   untouched m (snd (search P x m)) \<and>
   length (arrays m) \<le> fst (getFilteredTasks P m) \<and>
   (tasks m < length (arrays m) \<longrightarrow>
      array_at (snd (getFilteredTasks P m)) (tasks (snd (getFilteredTasks P m))) =
        array_at m (tasks m) \<and>
      array_at (snd (filterByStatus P s m)) (tasks (snd (filterByStatus P s m))) =
        array_at m (tasks m) \<and>
      array_at (snd (search P x m)) (tasks (snd (search P x m))) = array_at m (tasks m) \<and>
      fst (getFilteredTasks P m) \<noteq> tasks m)"
proof (intro conjI impI)
  show "untouched m (snd (getFilteredTasks P m))" by (rule getFilteredTasks_untouched)
  show "untouched m (snd (filterByStatus P s m))" by (rule filterByStatus_untouched)
  show "untouched m (snd (search P x m))" by (rule search_untouched)
  show "length (arrays m) \<le> fst (getFilteredTasks P m)" by (simp add: getFilteredTasks_arrays)
next
  assume wf: "tasks m < length (arrays m)"
  show "array_at (snd (getFilteredTasks P m)) (tasks (snd (getFilteredTasks P m))) =
        array_at m (tasks m)"
    using untouched_sequence [OF getFilteredTasks_untouched wf] by simp
  show "array_at (snd (filterByStatus P s m)) (tasks (snd (filterByStatus P s m))) =
        array_at m (tasks m)"
    using untouched_sequence [OF filterByStatus_untouched wf] by simp
  show "array_at (snd (search P x m)) (tasks (snd (search P x m))) = array_at m (tasks m)"
    using untouched_sequence [OF search_untouched wf] by simp
  from wf getFilteredTasks_arrays [of m P] show "fst (getFilteredTasks P m) \<noteq> tasks m" by simp
qed

subsection \<open>Sorting\<close>

lemma mset_insert_sorted: "mset (insert_sorted c x xs) = add_mset x (mset xs)"
  by (induction xs) auto

lemma mset_array_sort: "mset (array_sort c xs) = mset xs"
  by (induction xs) (auto simp: array_sort_def mset_insert_sorted)

lemma set_array_sort: "set (array_sort c xs) = set xs"
  by (metis mset_array_sort set_mset_mset)

lemma sorted_insert_sorted:
  assumes "\<And>y. y \<in> set xs \<Longrightarrow> (c x y \<le> 0 \<longleftrightarrow> k y \<le> k x)"
    and "sorted_wrt (\<lambda>a b. k b \<le> k a) xs"
  shows "sorted_wrt (\<lambda>a b. (k b :: int) \<le> k a) (insert_sorted c x xs)"
  using assms
proof (induction xs)
  case Nil
  then show ?case by simp
next
  case (Cons y ys)
  show ?case
  proof (cases "c x y \<le> 0")
    case True
    with Cons.prems(1) [of y] have xy: "k y \<le> k x" by simp
    with Cons.prems(2) have "\<forall>z\<in>set ys. k z \<le> k x" by auto
    with True xy Cons.prems(2) show ?thesis by simp
  next
    case False
    with Cons.prems(1) [of y] have "k x \<le> k y" by simp
    moreover have "sorted_wrt (\<lambda>a b. k b \<le> k a) (insert_sorted c x ys)"
      using Cons.IH Cons.prems by simp
    moreover have "set (insert_sorted c x ys) = insert x (set ys)"
      by (metis mset_insert_sorted set_mset_add_mset_insert set_mset_mset)
    ultimately show ?thesis using False Cons.prems(2) by simp
  qed
qed

lemma sorted_array_sort:
  assumes "\<And>x y. x \<in> set xs \<Longrightarrow> y \<in> set xs \<Longrightarrow> (c x y \<le> 0 \<longleftrightarrow> k y \<le> k x)"
  shows "sorted_wrt (\<lambda>a b. (k b :: int) \<le> k a) (array_sort c xs)"
  using assms
proof (induction xs)
  case Nil
  then show ?case by (simp add: array_sort_def)
next
  case (Cons x xs)
  have "sorted_wrt (\<lambda>a b. k b \<le> k a) (array_sort c xs)" using Cons by simp
  moreover have "\<And>y. y \<in> set (array_sort c xs) \<Longrightarrow> (c x y \<le> 0 \<longleftrightarrow> k y \<le> k x)"
    using Cons.prems by (simp add: set_array_sort)
  ultimately have "sorted_wrt (\<lambda>a b. k b \<le> k a) (insert_sorted c x (array_sort c xs))"
    by (intro sorted_insert_sorted)
  then show ?case by (simp add: array_sort_def)
qed

lemma compare_date_desc:
  "createdAt a = Some x \<Longrightarrow> createdAt b = Some y \<Longrightarrow>
   sortCompare (compareFn P (str ''date-desc'')) a b = y - x"
  by (simp add: sortCompare_def compareFn_def minus_number_def str_def)

text \<open>
  Claim C4, as the code has it. With the filter on \<open>terminee\<close>, an empty search text and
  the sort key \<open>date-desc\<close>, \<open>getFilteredTasks\<close> returns exactly the tasks whose status is
  \<open>terminee\<close>, each as often as the collection holds it; and it returns them newest
  first provided each of them holds a valid creation date. (The difference with an Invalid
  Date is NaN, which \<open>sort\<close> reads as \<open>+0\<close>.)
\<close>

theorem done_newest_first:
  assumes "currentFilter m = terminee" and "currentSearch m = []"
    and "currentSort m = str ''date-desc''"
  shows "mset (array_at (snd (getFilteredTasks P m)) (fst (getFilteredTasks P m))) =
           mset (filter (\<lambda>t. status t = terminee) (array_at m (tasks m))) \<and>
         ((\<forall>t\<in>set (array_at m (tasks m)). status t = terminee \<longrightarrow> createdAt t \<noteq> None) \<longrightarrow>
            sorted_wrt (\<lambda>a b. the (createdAt b) \<le> the (createdAt a))
              (array_at (snd (getFilteredTasks P m)) (fst (getFilteredTasks P m))))"
proof (intro conjI impI)
  let ?done = "filter (\<lambda>t. status t = terminee) (array_at m (tasks m))"
  let ?c = "sortCompare (compareFn P (str ''date-desc''))"
  have out: "array_at (snd (getFilteredTasks P m)) (fst (getFilteredTasks P m)) = array_sort ?c ?done"
    using assms by (simp add: getFilteredTasks_result filtered_view_def terminee_def str_def)
  then show "mset (array_at (snd (getFilteredTasks P m)) (fst (getFilteredTasks P m))) = mset ?done"
    by (simp add: mset_array_sort)
  assume dates: "\<forall>t\<in>set (array_at m (tasks m)). status t = terminee \<longrightarrow> createdAt t \<noteq> None"
  have "\<And>a b. a \<in> set ?done \<Longrightarrow> b \<in> set ?done \<Longrightarrow>
          (?c a b \<le> 0 \<longleftrightarrow> the (createdAt b) \<le> the (createdAt a))"
  proof -
    fix a b assume "a \<in> set ?done" "b \<in> set ?done"
    with dates have "createdAt a \<noteq> None" "createdAt b \<noteq> None" by auto
    then obtain x y where "createdAt a = Some x" "createdAt b = Some y" by auto
    then show "?c a b \<le> 0 \<longleftrightarrow> the (createdAt b) \<le> the (createdAt a)"
      by (simp add: compare_date_desc)
  qed
  then have "sorted_wrt (\<lambda>a b. the (createdAt b) \<le> the (createdAt a)) (array_sort ?c ?done)"
    by (rule sorted_array_sort)
  with out show "sorted_wrt (\<lambda>a b. the (createdAt b) \<le> the (createdAt a))
      (array_at (snd (getFilteredTasks P m)) (fst (getFilteredTasks P m)))"
    by simp
qed

lemma tasks_demo_manager:
  "array_at demo_manager (tasks demo_manager) = [demo_done, demo_task, demo_done_late]"
  by (simp add: demo_manager_def array_at_def)

lemma wf_demo_manager: "tasks demo_manager < length (arrays demo_manager)"
  by (simp add: demo_manager_def)

lemma view_demo_manager:
  "filtered_view demo_platform demo_manager [demo_done, demo_task, demo_done_late] =
     [demo_done_late, demo_done]"
  by (simp add: filtered_view_def demo_manager_def array_sort_def sortCompare_def compareFn_def
      minus_number_def demo_done_def demo_task_def demo_done_late_def str_def terminee_def
      en_cours_def)

lemma dates_demo_manager:
  "\<forall>t\<in>set (array_at demo_manager (tasks demo_manager)). status t = terminee \<longrightarrow> createdAt t \<noteq> None"
  by (simp add: tasks_demo_manager) (simp add: demo_done_def demo_task_def demo_done_late_def)

lemma tasks_demo_undated:
  "array_at demo_undated_manager (tasks demo_undated_manager) =
     [demo_done, demo_undated, demo_done_late]"
  by (simp add: demo_undated_manager_def demo_manager_def array_at_def)

lemma view_demo_undated:
  "filtered_view demo_platform demo_undated_manager [demo_done, demo_undated, demo_done_late] =
     [demo_done, demo_undated, demo_done_late]"
  by (simp add: filtered_view_def demo_undated_manager_def demo_manager_def array_sort_def
      sortCompare_def compareFn_def minus_number_def demo_done_def demo_undated_def
      demo_done_late_def str_def terminee_def)

lemma fromJSON_demo_undated:
  "fromJSON demo_platform demo_entropy demo_data_undated = Inr demo_undated"
  by (simp add: fromJSON_def new_Task_def js_defs Let_def demo_data_undated_def
      demo_undated_def demo_platform_def lit_defs trim_defs)

theorem done_newest_first_witness:
  "currentFilter demo_manager = terminee \<and> currentSearch demo_manager = [] \<and>
   currentSort demo_manager = str ''date-desc'' \<and>
   array_at demo_manager (tasks demo_manager) = [demo_done, demo_task, demo_done_late] \<and>
   createdAt demo_done = Some 0 \<and> createdAt demo_done_late = Some 1000 \<and>
   status demo_task = en_cours \<and>
   array_at (snd (getFilteredTasks demo_platform demo_manager))
     (fst (getFilteredTasks demo_platform demo_manager)) = [demo_done_late, demo_done] \<and>
   sorted_wrt (\<lambda>a b. the (createdAt b) \<le> the (createdAt a))
     (array_at (snd (getFilteredTasks demo_platform demo_manager))
        (fst (getFilteredTasks demo_platform demo_manager)))"
  using done_newest_first [of demo_manager demo_platform] dates_demo_manager
  by (simp add: getFilteredTasks_result tasks_demo_manager view_demo_manager)
     (simp add: demo_manager_def demo_done_def demo_done_late_def demo_task_def)

theorem queries_leave_collection_witness:
  "tasks demo_manager < length (arrays demo_manager) \<and>
   array_at demo_manager (tasks demo_manager) = [demo_done, demo_task, demo_done_late] \<and>
   array_at (snd (getFilteredTasks demo_platform demo_manager))
     (fst (getFilteredTasks demo_platform demo_manager)) = [demo_done_late, demo_done] \<and>
   array_at (snd (getFilteredTasks demo_platform demo_manager))
     (tasks (snd (getFilteredTasks demo_platform demo_manager))) =
     [demo_done, demo_task, demo_done_late] \<and>
   array_at (snd (filterByStatus demo_platform en_cours demo_manager))
     (tasks (snd (filterByStatus demo_platform en_cours demo_manager))) =
     [demo_done, demo_task, demo_done_late] \<and>
   array_at (snd (search demo_platform (str ''Liv'') demo_manager))
     (tasks (snd (search demo_platform (str ''Liv'') demo_manager))) =
     [demo_done, demo_task, demo_done_late] \<and>
   localStorage (snd (getFilteredTasks demo_platform demo_manager)) = localStorage demo_manager"
  using queries_leave_collection [of demo_manager demo_platform en_cours "str ''Liv''"]
    wf_demo_manager
  by (auto simp add: getFilteredTasks_result tasks_demo_manager view_demo_manager untouched_def)

text \<open>
  Claim C4 as stated fails: \<open>fromJSON\<close> makes a done task with an Invalid Date of a
  record whose \<open>createdAt\<close> is no timestamp, and with that task between them the done
  task of time 0 is returned before the done task of time 1000, oldest first.
\<close>

theorem done_undated_counterexample:
  "currentFilter demo_undated_manager = terminee \<and> currentSearch demo_undated_manager = [] \<and>
   currentSort demo_undated_manager = str ''date-desc'' \<and>
   array_at demo_undated_manager (tasks demo_undated_manager) =
     [demo_done, demo_undated, demo_done_late] \<and>
   fromJSON demo_platform demo_entropy demo_data_undated = Inr demo_undated \<and>
   status demo_done = terminee \<and> status demo_undated = terminee \<and>
   status demo_done_late = terminee \<and>
   createdAt demo_done = Some 0 \<and> createdAt demo_undated = None \<and>
   createdAt demo_done_late = Some 1000 \<and>
   array_at (snd (getFilteredTasks demo_platform demo_undated_manager))
     (fst (getFilteredTasks demo_platform demo_undated_manager)) =
     [demo_done, demo_undated, demo_done_late]"
  by (simp add: getFilteredTasks_result tasks_demo_undated view_demo_undated fromJSON_demo_undated)
     (simp add: demo_undated_manager_def demo_manager_def demo_done_def demo_undated_def
       demo_done_late_def)

section \<open>Reordering\<close>

lemma findIndex_ge: "- 1 \<le> findIndex p xs"
  by (induction xs) (auto simp: Let_def)

lemma findIndex_absent: "findIndex p xs = - 1 \<longleftrightarrow> (\<forall>x\<in>set xs. \<not> p x)"
proof (induction xs)
  case Nil
  then show ?case by simp
next
  case (Cons x xs)
  from findIndex_ge [of p xs] have "findIndex p xs + 1 \<noteq> - 1" by simp
  with Cons show ?case by (auto simp: Let_def)
qed

lemma findIndex_found:
  "findIndex p xs \<noteq> - 1 \<Longrightarrow>
   0 \<le> findIndex p xs \<and> nat (findIndex p xs) < length xs \<and> p (xs ! nat (findIndex p xs))"
proof (induction xs)
  case Nil
  then show ?case by simp
next
  case (Cons x xs)
  show ?case
  proof (cases "p x")
    case True
    then show ?thesis by simp
  next
    case False
    with Cons.prems have ne: "findIndex p xs \<noteq> - 1" by (auto simp: Let_def split: if_splits)
    with Cons.IH have ih: "0 \<le> findIndex p xs" "nat (findIndex p xs) < length xs"
      "p (xs ! nat (findIndex p xs))" by simp_all
    from False ne have eq: "findIndex p (x # xs) = findIndex p xs + 1" by (simp add: Let_def)
    from ih(1) have "nat (findIndex p xs + 1) = Suc (nat (findIndex p xs))" by simp
    with eq ih show ?thesis by simp
  qed
qed

lemma save_fields:
  "arrays (save P m) = arrays m \<and> tasks (save P m) = tasks m \<and>
   currentFilter (save P m) = currentFilter m \<and> currentSearch (save P m) = currentSearch m \<and>
   currentSort (save P m) = currentSort m"
  by (simp add: save_def split: sum.splits)

lemma updateUI_fields:
  "currentFilter (updateUI P m) = currentFilter m \<and> currentSearch (updateUI P m) = currentSearch m \<and>
   currentSort (updateUI P m) = currentSort m \<and> localStorage (updateUI P m) = localStorage m"
  by (simp add: updateUI_def getFilteredTasks_fields)


lemma reorderTasks_present:
  assumes wf: "tasks m < length (arrays m)"
    and i: "findIndex (\<lambda>t. id_T t = String a) (array_at m (tasks m)) = int i"
    and j: "findIndex (\<lambda>t. id_T t = String b) (array_at m (tasks m)) = int j"
  shows "array_at (reorderTasks P a b m) (tasks (reorderTasks P a b m)) =
           (array_at m (tasks m))[i := array_at m (tasks m) ! j, j := array_at m (tasks m) ! i] \<and>
         tasks (reorderTasks P a b m) < length (arrays (reorderTasks P a b m)) \<and>
         currentSort (reorderTasks P a b m) = str ''manual''"
proof -
  let ?xs = "array_at m (tasks m)"
  let ?m3 = "(array_set (tasks m) ((?xs[i := ?xs ! j])[j := ?xs ! i])
               (array_set (tasks m) (?xs[i := ?xs ! j]) m))\<lparr>currentSort := str ''manual''\<rparr>"
  have m1: "array_at (array_set (tasks m) (?xs[i := ?xs ! j]) m) (tasks m) = ?xs[i := ?xs ! j]"
    using wf by (simp add: array_set_def array_at_def)
  have t1: "tasks (array_set (tasks m) (?xs[i := ?xs ! j]) m) = tasks m"
    by (simp add: array_set_def)
  have r: "reorderTasks P a b m = updateUI P (save P ?m3)"
    using i j by (simp add: reorderTasks_def Let_def m1 t1)
  have s3: "array_at (save P ?m3) (tasks (save P ?m3)) = (?xs[i := ?xs ! j])[j := ?xs ! i]"
    "tasks (save P ?m3) < length (arrays (save P ?m3))"
    "currentSort (save P ?m3) = str ''manual''"
    using wf by (simp_all add: save_fields array_at_def array_set_def)
  from untouched_sequence [OF updateUI_untouched s3(2), of P] s3 r updateUI_fields [of P "save P ?m3"]
  show ?thesis by simp
qed

lemma swap_back:
  assumes "i < length xs" and "j < length xs"
  shows "(xs[i := xs ! j, j := xs ! i])[j := xs[i := xs ! j, j := xs ! i] ! i,
            i := xs[i := xs ! j, j := xs ! i] ! j] = xs"
  using assms by (auto simp: list_eq_iff_nth_eq nth_list_update)

lemma once_index_unique:
  "length (filter p xs) = 1 \<Longrightarrow> i < length xs \<Longrightarrow> p (xs ! i) \<Longrightarrow> j < length xs \<Longrightarrow> p (xs ! j) \<Longrightarrow>
   i = j"
proof (induction xs arbitrary: i j)
  case Nil
  then show ?case by simp
next
  case (Cons x xs)
  show ?case
  proof (cases "p x")
    case True
    with Cons.prems(1) have "filter p xs = []" by simp
    then have none: "\<forall>y\<in>set xs. \<not> p y" by (simp add: filter_empty_conv)
    have "i = 0"
    proof (cases i)
      case (Suc k)
      with Cons.prems(2,3) have "k < length xs" "p (xs ! k)" by simp_all
      with none show ?thesis by (metis nth_mem)
    qed simp
    moreover have "j = 0"
    proof (cases j)
      case (Suc k)
      with Cons.prems(4,5) have "k < length xs" "p (xs ! k)" by simp_all
      with none show ?thesis by (metis nth_mem)
    qed simp
    ultimately show ?thesis by simp
  next
    case False
    with Cons.prems(3) obtain k where i: "i = Suc k" by (cases i) auto
    from False Cons.prems(5) obtain l where j: "j = Suc l" by (cases j) auto
    from False Cons.prems(1) have "length (filter p xs) = 1" by simp
    from Cons.IH [OF this, of k l] Cons.prems i j show ?thesis by simp
  qed
qed

lemma findIndex_once:
  assumes "length (filter p xs) = 1" and "i < length xs" and "p (xs ! i)"
  shows "findIndex p xs = int i"
proof -
  from assms(2,3) have "\<exists>x\<in>set xs. p x" by (metis nth_mem)
  then have "findIndex p xs \<noteq> - 1" by (simp add: findIndex_absent)
  from findIndex_found [OF this] have f: "0 \<le> findIndex p xs" "nat (findIndex p xs) < length xs"
    "p (xs ! nat (findIndex p xs))" by simp_all
  from once_index_unique [OF assms(1) f(2,3) assms(2,3)] f(1) show ?thesis by simp
qed

lemma once_present: "length (filter p xs) = 1 \<Longrightarrow> findIndex p xs \<noteq> - 1"
proof -
  assume "length (filter p xs) = 1"
  then have "filter p xs \<noteq> []" by auto
  then have "\<exists>x\<in>set xs. p x" by (simp add: filter_empty_conv)
  then show ?thesis by (simp add: findIndex_absent)
qed

lemma once_after_swap:
  assumes "i < length xs" and "j < length xs"
  shows "length (filter p (xs[i := xs ! j, j := xs ! i])) = length (filter p xs)"
proof -
  have "mset (xs[i := xs ! j, j := xs ! i]) = mset xs" using assms by (simp add: mset_swap)
  then have "mset (filter p (xs[i := xs ! j, j := xs ! i])) = mset (filter p xs)"
    by (simp only: mset_filter)
  then show ?thesis by (metis size_mset)
qed

text \<open>
  Claim C5, as the code has it. In a collection in which each of two different ids
  identifies exactly one task, \<open>reorderTasks\<close> applied twice with the same arguments
  gives back the original sequence, and each application sets the sort key to \<open>manual\<close>.
\<close>

theorem reorder_involution:
  assumes wf: "tasks m < length (arrays m)"
    and ne: "a \<noteq> b"
    and a: "length (filter (\<lambda>t. id_T t = String a) (array_at m (tasks m))) = 1"
    and b: "length (filter (\<lambda>t. id_T t = String b) (array_at m (tasks m))) = 1"
  shows "array_at (reorderTasks P a b (reorderTasks P a b m))
           (tasks (reorderTasks P a b (reorderTasks P a b m))) = array_at m (tasks m) \<and>
         currentSort (reorderTasks P a b m) = str ''manual'' \<and>
         currentSort (reorderTasks P a b (reorderTasks P a b m)) = str ''manual''"
proof -
  let ?xs = "array_at m (tasks m)"
  let ?m' = "reorderTasks P a b m"
  define i where "i = nat (findIndex (\<lambda>t. id_T t = String a) ?xs)"
  define j where "j = nat (findIndex (\<lambda>t. id_T t = String b) ?xs)"
  from findIndex_found [OF once_present [OF a]]
  have i: "findIndex (\<lambda>t. id_T t = String a) ?xs = int i" "i < length ?xs" "id_T (?xs ! i) = String a"
    by (simp_all add: i_def)
  from findIndex_found [OF once_present [OF b]]
  have j: "findIndex (\<lambda>t. id_T t = String b) ?xs = int j" "j < length ?xs" "id_T (?xs ! j) = String b"
    by (simp_all add: j_def)
  from i(3) j(3) ne have ij: "i \<noteq> j" by auto
  let ?ys = "?xs[i := ?xs ! j, j := ?xs ! i]"
  from reorderTasks_present [OF wf i(1) j(1)]
  have first: "array_at ?m' (tasks ?m') = ?ys" "tasks ?m' < length (arrays ?m')"
    "currentSort ?m' = str ''manual''" by simp_all
  have len: "i < length ?ys" "j < length ?ys" using i(2) j(2) by simp_all
  have at: "?ys ! j = ?xs ! i" "?ys ! i = ?xs ! j" using i(2) j(2) ij by simp_all
  have once: "length (filter (\<lambda>t. id_T t = String a) ?ys) = 1" "length (filter (\<lambda>t. id_T t = String b) ?ys) = 1"
    using a b by (simp_all only: once_after_swap [OF i(2) j(2)])
  from findIndex_once [OF once(1) len(2)] at(1) i(3)
  have a': "findIndex (\<lambda>t. id_T t = String a) (array_at ?m' (tasks ?m')) = int j" by (simp add: first(1))
  from findIndex_once [OF once(2) len(1)] at(2) j(3)
  have b': "findIndex (\<lambda>t. id_T t = String b) (array_at ?m' (tasks ?m')) = int i" by (simp add: first(1))
  from reorderTasks_present [OF first(2) a' b']
  have "array_at (reorderTasks P a b ?m') (tasks (reorderTasks P a b ?m')) =
          ?ys[j := ?ys ! i, i := ?ys ! j]"
    and "currentSort (reorderTasks P a b ?m') = str ''manual''" by (simp_all add: first(1))
  moreover have "?ys[j := ?ys ! i, i := ?ys ! j] = ?xs" by (rule swap_back [OF i(2) j(2)])
  ultimately show ?thesis using first(3) by simp
qed






subsection \<open>Evaluation on the sample values\<close>

lemma ids_differ:
  "str ''task_0_a1'' \<noteq> str ''task_1000_b2'' \<and> str ''task_0_a1'' \<noteq> [] \<and> str ''task_1000_b2'' \<noteq> []"
  by (simp add: str_def)




lemma once_demo_done:
  "length (filter (\<lambda>t. id_T t = String (str ''task_0_a1''))
     (array_at demo_manager (tasks demo_manager))) = 1"
  by (simp add: tasks_demo_manager) (simp add: demo_done_def demo_task_def demo_done_late_def str_def)

lemma once_demo_done_late:
  "length (filter (\<lambda>t. id_T t = String (str ''task_1000_b2''))
     (array_at demo_manager (tasks demo_manager))) = 1"
  by (simp add: tasks_demo_manager) (simp add: demo_done_def demo_task_def demo_done_late_def str_def)

theorem reorder_involution_witness:
  "tasks demo_manager < length (arrays demo_manager) \<and>
   str ''task_0_a1'' \<noteq> str ''task_1000_b2'' \<and>
   array_at demo_manager (tasks demo_manager) = [demo_done, demo_task, demo_done_late] \<and>
   length (filter (\<lambda>t. id_T t = String (str ''task_0_a1''))
     (array_at demo_manager (tasks demo_manager))) = 1 \<and>
   length (filter (\<lambda>t. id_T t = String (str ''task_1000_b2''))
     (array_at demo_manager (tasks demo_manager))) = 1 \<and>
   array_at
     (reorderTasks demo_platform (str ''task_0_a1'') (str ''task_1000_b2'')
        (reorderTasks demo_platform (str ''task_0_a1'') (str ''task_1000_b2'') demo_manager))
     (tasks
        (reorderTasks demo_platform (str ''task_0_a1'') (str ''task_1000_b2'')
           (reorderTasks demo_platform (str ''task_0_a1'') (str ''task_1000_b2'') demo_manager))) =
     [demo_done, demo_task, demo_done_late] \<and>
   currentSort (reorderTasks demo_platform (str ''task_0_a1'') (str ''task_1000_b2'') demo_manager) =
     str ''manual''"
  using reorder_involution [of demo_manager "str ''task_0_a1''" "str ''task_1000_b2''" demo_platform]
    wf_demo_manager ids_differ once_demo_done once_demo_done_late
  by (simp add: tasks_demo_manager)

lemma tasks_demo_twin:
  "array_at demo_twin_manager (tasks demo_twin_manager) = [demo_done, demo_twin, demo_done_late]"
  by (simp add: demo_twin_manager_def demo_manager_def array_at_def)

lemma wf_demo_twin: "tasks demo_twin_manager < length (arrays demo_twin_manager)"
  by (simp add: demo_twin_manager_def demo_manager_def)

lemma findIndex_twin_first:
  "findIndex (\<lambda>t. id_T t = String (str ''task_0_a1''))
     (array_at demo_twin_manager (tasks demo_twin_manager)) = int 0 \<and>
   findIndex (\<lambda>t. id_T t = String (str ''task_1000_b2''))
     (array_at demo_twin_manager (tasks demo_twin_manager)) = int 2"
  by (simp add: tasks_demo_twin)
     (simp add: demo_done_def demo_twin_def demo_done_late_def str_def)

lemma findIndex_twin_second:
  "findIndex (\<lambda>t. id_T t = String (str ''task_0_a1'')) [demo_done_late, demo_twin, demo_done] = int 1 \<and>
   findIndex (\<lambda>t. id_T t = String (str ''task_1000_b2'')) [demo_done_late, demo_twin, demo_done] =
     int 0"
  by (simp add: demo_done_def demo_twin_def demo_done_late_def str_def)

lemma fromJSON_demo_twin: "fromJSON demo_platform demo_entropy demo_data_twin = Inr demo_twin"
  by (simp add: fromJSON_def new_Task_def js_defs Let_def demo_data_twin_def
      demo_twin_def demo_platform_def lit_defs trim_defs)

lemma reorder_twin_first:
  "array_at (reorderTasks demo_platform (str ''task_0_a1'') (str ''task_1000_b2'') demo_twin_manager)
     (tasks (reorderTasks demo_platform (str ''task_0_a1'') (str ''task_1000_b2'')
        demo_twin_manager)) = [demo_done_late, demo_twin, demo_done] \<and>
   tasks (reorderTasks demo_platform (str ''task_0_a1'') (str ''task_1000_b2'') demo_twin_manager) <
     length (arrays (reorderTasks demo_platform (str ''task_0_a1'') (str ''task_1000_b2'')
        demo_twin_manager))"
  using reorderTasks_present [OF wf_demo_twin findIndex_twin_first [THEN conjunct1]
      findIndex_twin_first [THEN conjunct2], of demo_platform]
  by (simp add: tasks_demo_twin)

text \<open>
  Claim C5 as stated fails where an id is held by two tasks: \<open>fromJSON\<close> makes
  \<open>demo_twin\<close> of a stored record that repeats the id of \<open>demo_done\<close>; both ids are
  present and they differ, and two calls of \<open>reorderTasks\<close> leave another order.
\<close>

theorem reorder_twin_counterexample:
  "array_at demo_twin_manager (tasks demo_twin_manager) = [demo_done, demo_twin, demo_done_late] \<and>
   fromJSON demo_platform demo_entropy demo_data_twin = Inr demo_twin \<and>
   id_T demo_done = String (str ''task_0_a1'') \<and> id_T demo_twin = String (str ''task_0_a1'') \<and>
   id_T demo_done_late = String (str ''task_1000_b2'') \<and>
   str ''task_0_a1'' \<noteq> str ''task_1000_b2'' \<and>
   array_at
     (reorderTasks demo_platform (str ''task_0_a1'') (str ''task_1000_b2'')
        (reorderTasks demo_platform (str ''task_0_a1'') (str ''task_1000_b2'') demo_twin_manager))
     (tasks
        (reorderTasks demo_platform (str ''task_0_a1'') (str ''task_1000_b2'')
           (reorderTasks demo_platform (str ''task_0_a1'') (str ''task_1000_b2'')
              demo_twin_manager))) =
     [demo_twin, demo_done_late, demo_done] \<and>
   [demo_twin, demo_done_late, demo_done] \<noteq> [demo_done, demo_twin, demo_done_late]"
proof -
  let ?m' = "reorderTasks demo_platform (str ''task_0_a1'') (str ''task_1000_b2'') demo_twin_manager"
  have a: "findIndex (\<lambda>t. id_T t = String (str ''task_0_a1'')) (array_at ?m' (tasks ?m')) = int 1"
    and b: "findIndex (\<lambda>t. id_T t = String (str ''task_1000_b2'')) (array_at ?m' (tasks ?m')) = int 0"
    by (simp_all only: reorder_twin_first findIndex_twin_second)
  from reorderTasks_present [OF reorder_twin_first [THEN conjunct2] a b, of demo_platform]
  have "array_at (reorderTasks demo_platform (str ''task_0_a1'') (str ''task_1000_b2'') ?m')
          (tasks (reorderTasks demo_platform (str ''task_0_a1'') (str ''task_1000_b2'') ?m')) =
        [demo_twin, demo_done_late, demo_done]"
    by (simp add: reorder_twin_first)
  moreover have "[demo_twin, demo_done_late, demo_done] \<noteq> [demo_done, demo_twin, demo_done_late]"
    by (simp add: demo_twin_def demo_done_def str_def)
  moreover have "id_T demo_done = String (str ''task_0_a1'')"
    "id_T demo_twin = String (str ''task_0_a1'')"
    "id_T demo_done_late = String (str ''task_1000_b2'')"
    by (simp_all add: demo_done_def demo_twin_def demo_done_late_def)
  ultimately show ?thesis
    using tasks_demo_twin fromJSON_demo_twin ids_differ by simp
qed






section \<open>Loading\<close>















subsection \<open>Evaluation on the sample values\<close>
















end
